theory Spec2Isabelle
  imports Complex_Main
begin

section \<open>Tensors: a shape and a value at every index\<close>

text \<open>
  The samplers and the registration network of \<^verbatim>\<open>nitorch\<close> compute on torch tensors.
  A tensor is modelled by its shape and by the value it holds at each multi-index.
  Elements are real numbers: rounding, overflow and NaN of the floating-point types
  are outside this model, and so are the device and the dtype of a tensor
  (\<^verbatim>\<open>.to(dtype=..., device=...)\<close> is the identity here).
\<close>

datatype error =
    TypeError | AttributeError | UnboundLocalError | RuntimeError | IndexError | ValueError
  | ZeroDivisionError

record tensor =
  shape_of :: "nat list"
  val :: "nat list \<Rightarrow> real"

text \<open>
  torch's broadcasting rule: shapes are aligned at their last axis; two sizes are
  compatible when they are equal or one of them is 1; a missing axis counts as 1.
\<close>

fun broadcast_rev :: "nat list \<Rightarrow> nat list \<Rightarrow> nat list option" where
  "broadcast_rev [] ys = Some ys"
| "broadcast_rev (x # xs) [] = Some (x # xs)"
| "broadcast_rev (x # xs) (y # ys) =
     (if x = y \<or> y = 1 then map_option ((#) x) (broadcast_rev xs ys)
      else if x = 1 then map_option ((#) y) (broadcast_rev xs ys)
      else None)"

definition broadcast_shapes :: "nat list \<Rightarrow> nat list \<Rightarrow> nat list option" where
  "broadcast_shapes a b = map_option rev (broadcast_rev (rev a) (rev b))"

text \<open>The index of an operand of shape \<open>s\<close> that an index of the broadcast result reads.\<close>

definition bindex :: "nat list \<Rightarrow> nat list \<Rightarrow> nat list" where
  "bindex s idx =
     map2 (\<lambda>n i. if n = 1 then 0 else i) s (drop (length idx - length s) idx)"

text \<open>\<^verbatim>\<open>a * b\<close>, \<^verbatim>\<open>a / b\<close>: a new tensor of the broadcast shape.\<close>

definition broadcast_op :: "(real \<Rightarrow> real \<Rightarrow> real) \<Rightarrow> tensor \<Rightarrow> tensor \<Rightarrow> error + tensor" where
  "broadcast_op f a b =
     (case broadcast_shapes (shape_of a) (shape_of b) of
        None \<Rightarrow> Inl RuntimeError
      | Some s \<Rightarrow>
          Inr \<lparr>shape_of = s,
               val = (\<lambda>idx. f (val a (bindex (shape_of a) idx)) (val b (bindex (shape_of b) idx)))\<rparr>)"

text \<open>
  \<^verbatim>\<open>a *= b\<close>, \<^verbatim>\<open>a += b\<close>: an in-place operation may not change the shape of \<open>a\<close>;
  torch raises a RuntimeError when the broadcast shape differs from it.
\<close>

definition inplace_op :: "(real \<Rightarrow> real \<Rightarrow> real) \<Rightarrow> tensor \<Rightarrow> tensor \<Rightarrow> error + tensor" where
  "inplace_op f a b =
     (case broadcast_op f a b of
        Inl e \<Rightarrow> Inl e
      | Inr r \<Rightarrow> if shape_of r = shape_of a then Inr r else Inl RuntimeError)"

definition map_tensor :: "(real \<Rightarrow> real) \<Rightarrow> tensor \<Rightarrow> tensor" where
  "map_tensor f t = \<lparr>shape_of = shape_of t, val = (\<lambda>idx. f (val t idx))\<rparr>"

text \<open>
  \<^verbatim>\<open>t.sqrt_()\<close>, elementwise. It is applied to kernels and singular values, which are
  not negative; on a negative entry torch yields NaN, which has no counterpart here.
\<close>

definition sqrt_tensor :: "tensor \<Rightarrow> tensor" where
  "sqrt_tensor t = map_tensor sqrt t"

text \<open>\<^verbatim>\<open>t.unsqueeze(-1)\<close>: a new last axis of size 1.\<close>

definition unsqueeze_last :: "tensor \<Rightarrow> tensor" where
  "unsqueeze_last t = \<lparr>shape_of = shape_of t @ [1], val = (\<lambda>idx. val t (butlast idx))\<rparr>"

text \<open>\<^verbatim>\<open>utils.unsqueeze(t, -1, n)\<close>: \<open>n\<close> new last axes of size 1.\<close>

definition unsqueeze_n :: "tensor \<Rightarrow> nat \<Rightarrow> tensor" where
  "unsqueeze_n t n =
     \<lparr>shape_of = shape_of t @ replicate n 1, val = (\<lambda>idx. val t (take (length idx - n) idx))\<rparr>"

text \<open>\<^verbatim>\<open>t[i]\<close> on the first axis; the callers index an axis of size 2 with 0 and 1.\<close>

definition select :: "tensor \<Rightarrow> nat \<Rightarrow> tensor" where
  "select t i = \<lparr>shape_of = tl (shape_of t), val = (\<lambda>idx. val t (i # idx))\<rparr>"

text \<open>
  \<^verbatim>\<open>torch.stack(ts)\<close> on a new first axis: the list must not be empty and the tensors
  must have one shape.
\<close>

definition torch_stack :: "tensor list \<Rightarrow> error + tensor" where
  "torch_stack ts =
     (case ts of
        [] \<Rightarrow> Inl RuntimeError
      | t # _ \<Rightarrow>
          if list_all (\<lambda>u. shape_of u = shape_of t) ts
          then Inr \<lparr>shape_of = length ts # shape_of t,
                    val = (\<lambda>idx. case idx of [] \<Rightarrow> 0 | c # r \<Rightarrow> val (ts ! c) r)\<rparr>
          else Inl RuntimeError)"

text \<open>\<^verbatim>\<open>torch.randn(shape)\<close>: the values drawn are an argument of the model.\<close>

definition randn :: "(nat list \<Rightarrow> real) \<Rightarrow> nat list \<Rightarrow> tensor" where
  "randn noise s = \<lparr>shape_of = s, val = noise\<rparr>"

text \<open>\<^verbatim>\<open>py.prod(shape)\<close>.\<close>

definition prod_py :: "nat list \<Rightarrow> nat" where
  "prod_py s = foldr (*) s 1"

text \<open>An index is inside a shape.\<close>

definition valid_index :: "nat list \<Rightarrow> nat list \<Rightarrow> bool" where
  "valid_index s idx = (length idx = length s \<and> list_all2 (<) idx s)"

section \<open>Parameters given as a number or as a vector\<close>

datatype vector_like = Scalar real | Vector "real list"

text \<open>
  Modelled from the spec: \<^verbatim>\<open>utils.make_vector\<close> is absent from the sources (the spec
  counts it among the basic tensor utility wrappers, "vector broadcasting"). Penalty
  weights are "scalars (or per-channel vectors)" and the voxel spacing "defaults to
  uniform": a number is repeated \<open>n\<close> times, a sequence is cropped to \<open>n\<close> entries or
  padded with its last entry; an empty sequence has no last entry to pad with.
\<close>

fun make_vector :: "vector_like \<Rightarrow> nat \<Rightarrow> error + real list" where
  "make_vector (Scalar x) n = Inr (replicate n x)"
| "make_vector (Vector xs) n =
     (if n \<le> length xs then Inr (take n xs)
      else if xs = [] then Inl IndexError
      else Inr (xs @ replicate (n - length xs) (last xs)))"

definition vector_tensor :: "real list \<Rightarrow> tensor" where
  "vector_tensor xs =
     \<lparr>shape_of = [length xs], val = (\<lambda>idx. case idx of [] \<Rightarrow> 0 | i # _ \<Rightarrow> xs ! i)\<rparr>"

section \<open>The numerical primitives the samplers call\<close>

text \<open>
  \<^verbatim>\<open>spatial.greens\<close>, \<^verbatim>\<open>torch.svd\<close> and the inverse Fourier transform of
  \<^verbatim>\<open>nitorch.core.fft\<close> are not part of the sources. The values they compute are
  parameters of the model; the shapes of their results are written out below.
\<close>

record prims =
  greens_val :: "nat list \<Rightarrow> real \<Rightarrow> real \<Rightarrow> real \<Rightarrow> real \<times> real \<Rightarrow> real list \<Rightarrow> nat list \<Rightarrow> real"
  svd_val :: "tensor \<Rightarrow> (nat list \<Rightarrow> real) \<times> (nat list \<Rightarrow> real) \<times> (nat list \<Rightarrow> real)"
  ifftn_real_val :: "int list \<Rightarrow> tensor \<Rightarrow> tensor \<Rightarrow> nat list \<Rightarrow> real"

definition any_lame :: "real \<times> real \<Rightarrow> bool" where
  "any_lame l = (fst l \<noteq> 0 \<or> snd l \<noteq> 0)"

text \<open>
  Modelled from the spec: \<^verbatim>\<open>spatial.greens\<close> is absent from the sources. Section 4.1:
  "For scalar (non-elastic) requests, output is a real non-negative array over the
  d-dimensional frequency grid, shape S. For vector fields with non-zero Lame terms,
  output is a d x d symmetric positive-semi-definite matrix per frequency, shape
  (*S, d, d)."
\<close>

definition spatial_greens ::
  "prims \<Rightarrow> nat list \<Rightarrow> real \<Rightarrow> real \<Rightarrow> real \<Rightarrow> real \<times> real \<Rightarrow> real list \<Rightarrow> tensor" where
  "spatial_greens P s absolute membrane bending lame voxel_size =
     \<lparr>shape_of = (if any_lame lame then s @ [length s, length s] else s),
      val = greens_val P s absolute membrane bending lame voxel_size\<rparr>"

text \<open>
  \<^verbatim>\<open>torch.svd\<close> of a batch of square matrices of shape \<open>(*, d, d)\<close>: \<open>U\<close> and \<open>V\<close> have the
  shape of the input, the singular values have shape \<open>(*, d)\<close>.
\<close>

definition torch_svd :: "prims \<Rightarrow> tensor \<Rightarrow> tensor \<times> tensor \<times> tensor" where
  "torch_svd P g =
     (case svd_val P g of
        (u, s, v) \<Rightarrow>
          (\<lparr>shape_of = shape_of g, val = u\<rparr>,
           \<lparr>shape_of = butlast (shape_of g), val = s\<rparr>,
           \<lparr>shape_of = shape_of g, val = v\<rparr>))"

text \<open>
  \<^verbatim>\<open>fft.real(fft.ifftn(fft.complex(re, im), dim=dims))\<close>: the real part of the
  inverse transform over the axes \<open>dims\<close> has the shape of \<open>re\<close> (section 4.4, step 3).
\<close>

definition ifftn_real :: "prims \<Rightarrow> int list \<Rightarrow> tensor \<Rightarrow> tensor \<Rightarrow> tensor" where
  "ifftn_real P dims re im = \<lparr>shape_of = shape_of re, val = ifftn_real_val P dims re im\<rparr>"

text \<open>
  Modelled from the spec: \<^verbatim>\<open>linalg.matvec\<close> is absent from the sources. Section 4.4,
  step 2: "apply the per-frequency linear map R to the d-vector at each site (batched
  matrix-vector product)". The matrix has shape \<open>(*, m, n)\<close>, the vector \<open>(*, n)\<close>, the
  leading axes broadcast, and the result has shape \<open>(*, m)\<close>.
\<close>

definition matvec :: "tensor \<Rightarrow> tensor \<Rightarrow> error + tensor" where
  "matvec mat vec =
     (if length (shape_of mat) < 2 \<or> shape_of vec = [] then Inl RuntimeError
      else
        (let m = last (butlast (shape_of mat));
             n = last (shape_of mat);
             bm = butlast (butlast (shape_of mat));
             bv = butlast (shape_of vec)
         in if last (shape_of vec) \<noteq> n then Inl RuntimeError
            else (case broadcast_shapes bm bv of
                    None \<Rightarrow> Inl RuntimeError
                  | Some b \<Rightarrow>
                      Inr \<lparr>shape_of = b @ [m],
                           val = (\<lambda>idx. \<Sum>j<n. val mat (bindex bm (butlast idx) @ [last idx, j])
                                                * val vec (bindex bv (butlast idx) @ [j]))\<rparr>)))"

text \<open>What one call of \<open>forward\<close> leaves behind and returns.\<close>

record 's outcome =
  final :: 's
  greens_calls :: nat
  result :: "error + tensor"

text \<open>The keyword arguments \<^verbatim>\<open>**overload\<close> that \<open>forward\<close> reads.\<close>

record overload =
  ov_shape :: "nat list option"
  ov_channel :: "nat option"
  ov_voxel_size :: "vector_like option"
  ov_mean :: "real option"

definition no_overload :: overload where
  "no_overload = \<lparr>ov_shape = None, ov_channel = None, ov_voxel_size = None, ov_mean = None\<rparr>"

text \<open>\<^verbatim>\<open>overload.get('shape', self.shape)\<close>; the attribute may be \<^verbatim>\<open>None\<close>.\<close>

definition get_shape :: "overload \<Rightarrow> nat list option \<Rightarrow> nat list option" where
  "get_shape ov d = (case ov_shape ov of Some s \<Rightarrow> Some s | None \<Rightarrow> d)"

definition get_or :: "'a option \<Rightarrow> 'a \<Rightarrow> 'a" where
  "get_or x d = (case x of None \<Rightarrow> d | Some y \<Rightarrow> y)"

section \<open>RandomFieldGreens\<close>

text \<open>
  The attributes set by \<^verbatim>\<open>__init__\<close>, and the attributes \<^verbatim>\<open>_greens\<close>,
  \<^verbatim>\<open>_voxel_size\<close>, \<^verbatim>\<open>_channel\<close> and \<^verbatim>\<open>_shape\<close> that \<open>forward\<close> tests with
  \<^verbatim>\<open>hasattr\<close> or reads: \<open>None\<close> is an attribute that does not exist.
\<close>

record random_field_greens =
  fg_shape :: "nat list option"
  fg_mean :: vector_like
  fg_channel :: nat
  fg_absolute :: vector_like
  fg_membrane :: vector_like
  fg_bending :: vector_like
  fg_voxel_size :: vector_like
  fg_cache_greens :: bool
  fg_attr_greens :: "tensor option"
  fg_attr_voxel_size :: "real list option"
  fg_attr_channel :: "nat option"
  fg_attr_shape :: "nat list option"

definition RandomFieldGreens_init ::
  "nat list option \<Rightarrow> vector_like \<Rightarrow> nat \<Rightarrow> vector_like \<Rightarrow> vector_like \<Rightarrow> vector_like \<Rightarrow>
   vector_like \<Rightarrow> bool \<Rightarrow> random_field_greens" where
  "RandomFieldGreens_init shape mean channel absolute membrane bending voxel_size cache_greens =
     \<lparr>fg_shape = shape, fg_mean = mean, fg_channel = channel, fg_absolute = absolute,
      fg_membrane = membrane, fg_bending = bending, fg_voxel_size = voxel_size,
      fg_cache_greens = cache_greens,
      fg_attr_greens = None, fg_attr_voxel_size = None, fg_attr_channel = None,
      fg_attr_shape = None\<rparr>"

text \<open>
  The test of lines 288-291, left to right as \<^verbatim>\<open>and\<close> evaluates it. \<open>Inr None\<close> is a
  miss, \<open>Inr (Some g)\<close> a hit; reading an attribute that does not exist raises.
\<close>

definition field_cached ::
  "random_field_greens \<Rightarrow> real list \<Rightarrow> nat \<Rightarrow> nat list \<Rightarrow> error + tensor option" where
  "field_cached self voxel_size channel shape =
     (case fg_attr_greens self of
        None \<Rightarrow> Inr None
      | Some g \<Rightarrow>
          (case fg_attr_voxel_size self of
             None \<Rightarrow> Inl AttributeError
           | Some v \<Rightarrow>
               if v \<noteq> voxel_size then Inr None
               else (case fg_attr_channel self of
                       None \<Rightarrow> Inl AttributeError
                     | Some c \<Rightarrow>
                         if c \<noteq> channel then Inr None
                         else (case fg_attr_shape self of
                                 None \<Rightarrow> Inl AttributeError
                               | Some s \<Rightarrow> if s \<noteq> shape then Inr None else Inr (Some g)))))"

text \<open>
  Lines 294-311: the kernel of every channel, stacked and square-rooted. The first
  component counts the calls of \<^verbatim>\<open>spatial.greens\<close>.
\<close>

definition field_build ::
  "prims \<Rightarrow> random_field_greens \<Rightarrow> nat list \<Rightarrow> nat \<Rightarrow> real list \<Rightarrow>
   nat \<times> (error + tensor \<times> real list)" where
  "field_build P self shape channel voxel_size =
     (case make_vector (fg_mean self) channel of
        Inl e \<Rightarrow> (0, Inl e)
      | Inr mean \<Rightarrow>
     (case make_vector (fg_absolute self) channel of
        Inl e \<Rightarrow> (0, Inl e)
      | Inr absolute \<Rightarrow>
     (case make_vector (fg_membrane self) channel of
        Inl e \<Rightarrow> (0, Inl e)
      | Inr membrane \<Rightarrow>
     (case make_vector (fg_bending self) channel of
        Inl e \<Rightarrow> (0, Inl e)
      | Inr bending \<Rightarrow>
          (let greens =
                 map (\<lambda>c. spatial_greens P shape (absolute ! c) (membrane ! c) (bending ! c)
                            (0, 0) voxel_size) [0..<channel]
           in case torch_stack greens of
                Inl e \<Rightarrow> (channel, Inl e)
              | Inr g \<Rightarrow> (channel, Inr (sqrt_tensor g, mean)))))))"

text \<open>
  Lines 318-331. The local \<open>mean\<close> is bound on the building branch only: \<open>None\<close> is the
  unbound name, which raises when line 329 reads it.
\<close>

definition field_sample ::
  "prims \<Rightarrow> (nat list \<Rightarrow> real) \<Rightarrow> tensor \<Rightarrow> real list option \<Rightarrow> nat \<Rightarrow> nat \<Rightarrow> nat list \<Rightarrow>
   error + tensor" where
  "field_sample P noise greens mean batch channel shape =
     (let sample = randn noise ([2, batch, channel] @ shape)
      in case inplace_op (*) sample (unsqueeze_last greens) of
           Inl e \<Rightarrow> Inl e
         | Inr sample \<Rightarrow>
             (let dims = [- int (length shape) .. - 1];
                  sample = ifftn_real P dims (select sample 0) (select sample 1);
                  sample = map_tensor (\<lambda>x. x * real (prod_py shape)) sample
              in case mean of
                   None \<Rightarrow> Inl UnboundLocalError
                 | Some m \<Rightarrow>
                     inplace_op (+) sample (unsqueeze_n (vector_tensor m) (length shape))))"

definition field_store :: "random_field_greens \<Rightarrow> tensor \<Rightarrow> real list \<Rightarrow> nat list \<Rightarrow> random_field_greens" where
  "field_store self greens voxel_size shape =
     (if fg_cache_greens self
      then self\<lparr>fg_attr_greens := Some greens, fg_attr_voxel_size := Some voxel_size,
                fg_attr_shape := Some shape\<rparr>
      else self)"

definition RandomFieldGreens_forward ::
  "prims \<Rightarrow> (nat list \<Rightarrow> real) \<Rightarrow> random_field_greens \<Rightarrow> nat \<Rightarrow> overload \<Rightarrow>
   random_field_greens outcome" where
  "RandomFieldGreens_forward P noise self batch ov =
     (let channel = get_or (ov_channel ov) (fg_channel self);
          voxel_size = get_or (ov_voxel_size ov) (fg_voxel_size self)
      in case get_shape ov (fg_shape self) of
           None \<Rightarrow> \<lparr>final = self, greens_calls = 0, result = Inl TypeError\<rparr>
         | Some shape \<Rightarrow>
        (case make_vector voxel_size (length shape) of
           Inl e \<Rightarrow> \<lparr>final = self, greens_calls = 0, result = Inl e\<rparr>
         | Inr voxel_size \<Rightarrow>
        (case field_cached self voxel_size channel shape of
           Inl e \<Rightarrow> \<lparr>final = self, greens_calls = 0, result = Inl e\<rparr>
         | Inr (Some greens) \<Rightarrow>
             \<lparr>final = self, greens_calls = 0,
              result = field_sample P noise greens None batch channel shape\<rparr>
         | Inr None \<Rightarrow>
             (case field_build P self shape channel voxel_size of
                (n, Inl e) \<Rightarrow> \<lparr>final = self, greens_calls = n, result = Inl e\<rparr>
              | (n, Inr (greens, mean)) \<Rightarrow>
                  \<lparr>final = field_store self greens voxel_size shape, greens_calls = n,
                   result = field_sample P noise greens (Some mean) batch channel shape\<rparr>))))"

section \<open>RandomGridGreens\<close>

record random_grid_greens =
  gg_shape :: "nat list option"
  gg_mean :: real
  gg_absolute :: real
  gg_membrane :: real
  gg_bending :: real
  gg_lame :: "real \<times> real"
  gg_voxel_size :: vector_like
  gg_cache_greens :: bool
  gg_attr_greens :: "tensor option"
  gg_attr_voxel_size :: "real list option"
  gg_attr_shape :: "nat list option"

definition RandomGridGreens_init ::
  "nat list option \<Rightarrow> real \<Rightarrow> real \<Rightarrow> real \<Rightarrow> real \<Rightarrow> real \<times> real \<Rightarrow> vector_like \<Rightarrow> bool \<Rightarrow>
   random_grid_greens" where
  "RandomGridGreens_init shape mean absolute membrane bending lame voxel_size cache_greens =
     \<lparr>gg_shape = shape, gg_mean = mean, gg_absolute = absolute, gg_membrane = membrane,
      gg_bending = bending, gg_lame = lame, gg_voxel_size = voxel_size,
      gg_cache_greens = cache_greens,
      gg_attr_greens = None, gg_attr_voxel_size = None, gg_attr_shape = None\<rparr>"

text \<open>The test of lines 408-410.\<close>

definition grid_cached :: "random_grid_greens \<Rightarrow> real list \<Rightarrow> nat list \<Rightarrow> error + tensor option" where
  "grid_cached self voxel_size shape =
     (case gg_attr_greens self of
        None \<Rightarrow> Inr None
      | Some g \<Rightarrow>
          (case gg_attr_voxel_size self of
             None \<Rightarrow> Inl AttributeError
           | Some v \<Rightarrow>
               if v \<noteq> voxel_size then Inr None
               else (case gg_attr_shape self of
                       None \<Rightarrow> Inl AttributeError
                     | Some s \<Rightarrow> if s \<noteq> shape then Inr None else Inr (Some g))))"

text \<open>
  Lines 422-427, the square-root stage: with Lame terms, \<^verbatim>\<open>greens\<close> becomes the factor
  \<open>U\<close> of the decomposition, multiplied in place by \<^verbatim>\<open>scale.unsqueeze(-1)\<close>.
\<close>

definition grid_sqrt :: "prims \<Rightarrow> real \<times> real \<Rightarrow> tensor \<Rightarrow> error + tensor" where
  "grid_sqrt P lame greens =
     (if any_lame lame
      then (case torch_svd P greens of
              (greens, scale, _) \<Rightarrow>
                inplace_op (*) greens (unsqueeze_last (sqrt_tensor scale)))
      else Inr (sqrt_tensor greens))"

text \<open>Lines 413-427.\<close>

definition grid_build :: "prims \<Rightarrow> random_grid_greens \<Rightarrow> nat list \<Rightarrow> real list \<Rightarrow> error + tensor" where
  "grid_build P self shape voxel_size =
     grid_sqrt P (gg_lame self)
       (spatial_greens P shape (gg_absolute self) (gg_membrane self) (gg_bending self)
          (gg_lame self) voxel_size)"

text \<open>Lines 437-442, the spectral filter.\<close>

definition grid_filter :: "tensor \<Rightarrow> tensor \<Rightarrow> real list \<Rightarrow> nat \<Rightarrow> error + tensor" where
  "grid_filter greens sample voxel_size nb_dim =
     (if nb_dim < length (shape_of greens) then matvec greens sample
      else (case broadcast_op (*) sample (unsqueeze_last greens) of
              Inl e \<Rightarrow> Inl e
            | Inr sample \<Rightarrow>
                (case make_vector (Vector voxel_size) nb_dim of
                   Inl e \<Rightarrow> Inl e
                 | Inr voxel_size \<Rightarrow>
                     broadcast_op (/) sample (sqrt_tensor (vector_tensor voxel_size)))))"

text \<open>Lines 434-453.\<close>

definition grid_sample ::
  "prims \<Rightarrow> (nat list \<Rightarrow> real) \<Rightarrow> tensor \<Rightarrow> real \<Rightarrow> real list \<Rightarrow> nat \<Rightarrow> nat list \<Rightarrow> error + tensor" where
  "grid_sample P noise greens mean voxel_size batch shape =
     (let nb_dim = length shape;
          sample = randn noise ([2, batch] @ shape @ [nb_dim])
      in case grid_filter greens sample voxel_size nb_dim of
           Inl e \<Rightarrow> Inl e
         | Inr sample \<Rightarrow>
             (let dims = [- int nb_dim - 1 .. - 2];
                  sample = ifftn_real P dims (select sample 0) (select sample 1);
                  sample = map_tensor (\<lambda>x. x * real (prod_py shape)) sample
              in Inr (map_tensor (\<lambda>x. x + mean) sample)))"

definition grid_store :: "random_grid_greens \<Rightarrow> tensor \<Rightarrow> real list \<Rightarrow> nat list \<Rightarrow> random_grid_greens" where
  "grid_store self greens voxel_size shape =
     (if gg_cache_greens self
      then self\<lparr>gg_attr_greens := Some greens, gg_attr_voxel_size := Some voxel_size,
                gg_attr_shape := Some shape\<rparr>
      else self)"

definition RandomGridGreens_forward ::
  "prims \<Rightarrow> (nat list \<Rightarrow> real) \<Rightarrow> random_grid_greens \<Rightarrow> nat \<Rightarrow> overload \<Rightarrow>
   random_grid_greens outcome" where
  "RandomGridGreens_forward P noise self batch ov =
     (let mean = get_or (ov_mean ov) (gg_mean self);
          voxel_size = get_or (ov_voxel_size ov) (gg_voxel_size self)
      in case get_shape ov (gg_shape self) of
           None \<Rightarrow> \<lparr>final = self, greens_calls = 0, result = Inl TypeError\<rparr>
         | Some shape \<Rightarrow>
        (case make_vector voxel_size (length shape) of
           Inl e \<Rightarrow> \<lparr>final = self, greens_calls = 0, result = Inl e\<rparr>
         | Inr voxel_size \<Rightarrow>
        (case grid_cached self voxel_size shape of
           Inl e \<Rightarrow> \<lparr>final = self, greens_calls = 0, result = Inl e\<rparr>
         | Inr (Some greens) \<Rightarrow>
             \<lparr>final = self, greens_calls = 0,
              result = grid_sample P noise greens mean voxel_size batch shape\<rparr>
         | Inr None \<Rightarrow>
             (case grid_build P self shape voxel_size of
                Inl e \<Rightarrow> \<lparr>final = self, greens_calls = 1, result = Inl e\<rparr>
              | Inr greens \<Rightarrow>
                  \<lparr>final = grid_store self greens voxel_size shape, greens_calls = 1,
                   result = grid_sample P noise greens mean voxel_size batch shape\<rparr>))))"

section \<open>VoxelMorph\<close>

text \<open>
  The layers of \<^verbatim>\<open>nitorch.nn.modules.spatial\<close> and the U-Net are external to the sources:
  what they compute is a parameter of the model (\<open>layers\<close>); how \<^verbatim>\<open>VoxelMorph\<close>
  configures and calls them is modelled from the code. Every call of a layer is logged.
\<close>

record grid_resize =
  gr_interpolation :: nat
  gr_bound :: string
  gr_factor :: "real list"

datatype velexp =
    GridExp nat string nat
  | GridShoot nat real real real "real \<times> real" real

record grid_pull =
  gp_interpolation :: nat
  gp_bound :: string
  gp_extrapolate :: bool

record exp_params =
  ep_interpolation :: nat
  ep_bound :: string
  ep_steps :: nat
  ep_shoot :: bool
  ep_downsample :: vector_like
  ep_absolute :: real
  ep_membrane :: real
  ep_bending :: real
  ep_lame :: "real \<times> real"
  ep_factor :: real

text \<open>The defaults of lines 116-129.\<close>

definition default_pull :: grid_pull where
  "default_pull = \<lparr>gp_interpolation = 1, gp_bound = ''dct2'', gp_extrapolate = False\<rparr>"

definition default_exp :: exp_params where
  "default_exp =
     \<lparr>ep_interpolation = 1, ep_bound = ''dft'', ep_steps = 8, ep_shoot = False,
      ep_downsample = Scalar 2, ep_absolute = 1 / 10000, ep_membrane = 1 / 1000,
      ep_bending = 2 / 10, ep_lame = (5 / 100, 2 / 10), ep_factor = 1\<rparr>"

record voxelmorph =
  vm_dim :: nat
  vm_resize :: grid_resize
  vm_velexp :: velexp
  vm_pull :: grid_pull

text \<open>
  \<^verbatim>\<open>VoxelMorph.__init__\<close>, lines 130-153: the resize layer gets the reciprocal of the
  downsampling factors (a zero factor raises ZeroDivisionError), the exponentiation layer is \<^verbatim>\<open>GridShoot\<close> or \<^verbatim>\<open>GridExp\<close>, each with its own keys.
\<close>

definition VoxelMorph_init :: "nat \<Rightarrow> grid_pull \<Rightarrow> exp_params \<Rightarrow> error + voxelmorph" where
  "VoxelMorph_init ndim pull exp_p =
     (case make_vector (ep_downsample exp_p) ndim of
        Inl e \<Rightarrow> Inl e
      | Inr downsample_vel \<Rightarrow>
          if list_ex (\<lambda>f. f = 0) downsample_vel then Inl ZeroDivisionError
          else Inr
            \<lparr>vm_dim = ndim,
             vm_resize = \<lparr>gr_interpolation = ep_interpolation exp_p, gr_bound = ep_bound exp_p,
                          gr_factor = map (\<lambda>f. 1 / f) downsample_vel\<rparr>,
             vm_velexp =
               (if ep_shoot exp_p
                then GridShoot (ep_steps exp_p) (ep_absolute exp_p) (ep_membrane exp_p)
                       (ep_bending exp_p) (ep_lame exp_p)
                       (ep_factor exp_p * prod_list downsample_vel)
                else GridExp (ep_interpolation exp_p) (ep_bound exp_p) (ep_steps exp_p)),
             vm_pull = pull\<rparr>)"

record layers =
  unet_fn :: "tensor \<Rightarrow> tensor"
  resize_fn :: "grid_resize \<Rightarrow> tensor \<Rightarrow> string \<Rightarrow> nat list option \<Rightarrow> real list option \<Rightarrow> tensor"
  velexp_fn :: "velexp \<Rightarrow> tensor \<Rightarrow> bool \<Rightarrow> tensor"
  pull_fn :: "grid_pull \<Rightarrow> tensor \<Rightarrow> tensor \<Rightarrow> tensor"
  resize_grid_fn :: "tensor \<Rightarrow> nat list \<Rightarrow> tensor"

datatype call =
    Unet tensor
  | Resize tensor string "nat list option" "real list option"
  | VelExp tensor bool
  | Pull tensor tensor
  | ResizeGrid tensor "nat list"

text \<open>
  Modelled from the spec: \<^verbatim>\<open>GridResize\<close> is absent from the sources. Section 4.5: the
  field is "resized-to-integration-lattice" and later "resized-back-to-native": called
  with \<^verbatim>\<open>shape=...\<close> on a \<open>(batch, *spatial, dim)\<close> field, the result has that spatial
  shape. The interpolated values, and the lattice chosen from \<open>factor\<close> when no shape is
  given, are parameters.
\<close>

definition GridResize_forward ::
  "layers \<Rightarrow> grid_resize \<Rightarrow> tensor \<Rightarrow> string \<Rightarrow> nat list option \<Rightarrow> real list option \<Rightarrow> tensor" where
  "GridResize_forward L layer grid type shp factor =
     (let r = resize_fn L layer grid type shp factor
      in case shp of
           None \<Rightarrow> r
         | Some s \<Rightarrow> r\<lparr>shape_of := hd (shape_of grid) # s @ [last (shape_of grid)]\<rparr>)"

text \<open>\<^verbatim>\<open>velocity.shape[1:-1]\<close>.\<close>

definition spatial_shape :: "tensor \<Rightarrow> nat list" where
  "spatial_shape t = butlast (tl (shape_of t))"

text \<open>\<^verbatim>\<open>VoxelMorph.exp\<close>, lines 176-181, with the calls it makes, in order.\<close>

definition VoxelMorph_exp :: "layers \<Rightarrow> voxelmorph \<Rightarrow> tensor \<Rightarrow> bool \<Rightarrow> call list \<times> tensor" where
  "VoxelMorph_exp L self velocity displacement =
     (let shape = spatial_shape velocity;
          factor = Some (gr_factor (vm_resize self));
          velocity_small =
            GridResize_forward L (vm_resize self) velocity ''displacement'' None factor;
          grid = velexp_fn L (vm_velexp self) velocity_small displacement;
          type = (if displacement then ''disp'' else ''grid'');
          grid' = GridResize_forward L (vm_resize self) grid type (Some shape) None
      in ([Resize velocity ''displacement'' None factor,
           VelExp velocity_small displacement,
           Resize grid type (Some shape) None],
          grid'))"

text \<open>
  Modelled from the spec: the module \<^verbatim>\<open>nitorch.nn.check\<close> is absent from the sources.
  Section 4.6, step 1: "Validate that source and target agree in batch size
  (broadcastable) and spatial shape; same for segmentation maps if provided", and
  section 7: a mismatch is "reported immediately ... as a contract violation". The
  violation is the error \<open>ValueError\<close>; a tensor that is \<^verbatim>\<open>None\<close> is not checked.
  \<^verbatim>\<open>check.dim(dim, ...)\<close> asks for the \<open>dim + 2\<close> axes \<open>(batch, channel, *spatial)\<close> that
  the docstring of \<open>forward\<close> gives its arguments; \<^verbatim>\<open>check.shape\<close> compares the sizes of
  two tensors on the axes \<open>dims\<close>, and reading an axis a tensor does not have is an
  IndexError.
\<close>

definition check_dim :: "nat \<Rightarrow> tensor option list \<Rightarrow> error + unit" where
  "check_dim ndim ts =
     (if list_all (\<lambda>t. case t of None \<Rightarrow> True | Some x \<Rightarrow> length (shape_of x) = ndim + 2) ts
      then Inr () else Inl ValueError)"

fun check_shape :: "tensor option \<Rightarrow> tensor option \<Rightarrow> nat list \<Rightarrow> bool \<Rightarrow> error + unit" where
  "check_shape None _ _ _ = Inr ()"
| "check_shape (Some x) None _ _ = Inr ()"
| "check_shape (Some x) (Some y) [] broadcast_ok = Inr ()"
| "check_shape (Some x) (Some y) (d # dims) broadcast_ok =
     (if length (shape_of x) \<le> d \<or> length (shape_of y) \<le> d then Inl IndexError
      else if shape_of x ! d = shape_of y ! d
              \<or> (broadcast_ok \<and> (shape_of x ! d = 1 \<or> shape_of y ! d = 1))
      then check_shape (Some x) (Some y) dims broadcast_ok
      else Inl ValueError)"

text \<open>The sanity checks of lines 216-220, in order; the first failure is raised.\<close>

definition VoxelMorph_checks ::
  "voxelmorph \<Rightarrow> tensor \<Rightarrow> tensor \<Rightarrow> tensor option \<Rightarrow> tensor option \<Rightarrow> error + unit" where
  "VoxelMorph_checks self source target source_seg target_seg =
     (case check_dim (vm_dim self) [Some source, Some target] of
        Inl e \<Rightarrow> Inl e
      | Inr _ \<Rightarrow>
     (case check_shape (Some target) (Some source) [0] True of
        Inl e \<Rightarrow> Inl e
      | Inr _ \<Rightarrow>
     (case check_shape (Some target) (Some source) [2..<vm_dim self + 2] False of
        Inl e \<Rightarrow> Inl e
      | Inr _ \<Rightarrow>
     (case check_shape target_seg source_seg [0] True of
        Inl e \<Rightarrow> Inl e
      | Inr _ \<Rightarrow> check_shape target_seg source_seg [2..<vm_dim self + 2] False))))"

text \<open>
  \<^verbatim>\<open>torch.cat((a, b), dim=1)\<close>: the tensors must agree on every axis but the second.
\<close>

definition torch_cat1 :: "tensor \<Rightarrow> tensor \<Rightarrow> error + tensor" where
  "torch_cat1 a b =
     (case (shape_of a, shape_of b) of
        (n # ca # ra, m # cb # rb) \<Rightarrow>
          if n = m \<and> ra = rb
          then Inr \<lparr>shape_of = n # (ca + cb) # ra,
                    val = (\<lambda>idx. case idx of
                                    i # c # r \<Rightarrow> if c < ca then val a idx else val b (i # (c - ca) # r)
                                  | _ \<Rightarrow> 0)\<rparr>
          else Inl RuntimeError
      | _ \<Rightarrow> Inl RuntimeError)"

text \<open>
  Modelled from the spec: \<^verbatim>\<open>core.utils.channel2last\<close> is absent from the sources.
  Section 4.6, step 2: "reorder its axes so spatial dimensions precede the
  vector-component axis": \<open>(batch, channel, *spatial)\<close> becomes \<open>(batch, *spatial, channel)\<close>.
\<close>

definition channel2last :: "tensor \<Rightarrow> tensor" where
  "channel2last t =
     (case shape_of t of
        n # c # r \<Rightarrow>
          \<lparr>shape_of = n # r @ [c],
           val = (\<lambda>idx. case idx of i # rest \<Rightarrow> val t (i # last rest # butlast rest) | [] \<Rightarrow> 0)\<rparr>
      | _ \<Rightarrow> t)"

record forward_output =
  fo_deformed_source :: tensor
  fo_deformed_source_seg :: "tensor option"
  fo_velocity :: tensor

text \<open>
  \<^verbatim>\<open>VoxelMorph.forward\<close>, lines 216-245, with the calls of layers it makes, in order.
  The losses of \<^verbatim>\<open>self.compute\<close> do not change what is returned and are left out.
\<close>

definition VoxelMorph_forward ::
  "layers \<Rightarrow> voxelmorph \<Rightarrow> tensor \<Rightarrow> tensor \<Rightarrow> tensor option \<Rightarrow> tensor option \<Rightarrow>
   call list \<times> (error + forward_output)" where
  "VoxelMorph_forward L self source target source_seg target_seg =
     (case VoxelMorph_checks self source target source_seg target_seg of
        Inl e \<Rightarrow> ([], Inl e)
      | Inr _ \<Rightarrow>
     (case torch_cat1 source target of
        Inl e \<Rightarrow> ([], Inl e)
      | Inr source_and_target \<Rightarrow>
          (let velocity = channel2last (unet_fn L source_and_target);
               (calls, grid) = VoxelMorph_exp L self velocity False;
               deformed = pull_fn L (vm_pull self) source grid;
               calls = Unet source_and_target # calls @ [Pull source grid]
           in case source_seg of
                None \<Rightarrow>
                  (calls,
                   Inr \<lparr>fo_deformed_source = deformed, fo_deformed_source_seg = None,
                        fo_velocity = velocity\<rparr>)
              | Some seg \<Rightarrow>
                  (if drop 2 (shape_of seg) \<noteq> drop 2 (shape_of source)
                   then (let grid' = resize_grid_fn L grid (drop 2 (shape_of seg))
                         in (calls @ [ResizeGrid grid (drop 2 (shape_of seg)), Pull seg grid'],
                             Inr \<lparr>fo_deformed_source = deformed,
                                  fo_deformed_source_seg = Some (pull_fn L (vm_pull self) seg grid'),
                                  fo_velocity = velocity\<rparr>))
                   else (calls @ [Pull seg grid],
                         Inr \<lparr>fo_deformed_source = deformed,
                              fo_deformed_source_seg = Some (pull_fn L (vm_pull self) seg grid),
                              fo_velocity = velocity\<rparr>)))))"

section \<open>Per-frequency matrices\<close>

text \<open>
  Entry \<open>(i, k)\<close> of \<open>R \<cdot> R\<^sup>T\<close> at the frequency \<open>f\<close>, for a kernel \<open>R\<close> of shape
  \<open>(*S, d, d)\<close>, and what \<^verbatim>\<open>torch.svd\<close> promises of its three results at \<open>f\<close>:
  \<open>G = U \<cdot> diag(S) \<cdot> V\<^sup>T\<close> with \<open>U\<close> and \<open>V\<close> orthogonal.
\<close>

definition gram :: "tensor \<Rightarrow> nat list \<Rightarrow> nat \<Rightarrow> nat \<Rightarrow> nat \<Rightarrow> real" where
  "gram R f d i k = (\<Sum>j<d. val R (f @ [i, j]) * val R (f @ [k, j]))"

definition kronecker :: "nat \<Rightarrow> nat \<Rightarrow> real" where
  "kronecker i k = (if i = k then 1 else 0)"

definition orthogonal_at :: "tensor \<Rightarrow> nat list \<Rightarrow> nat \<Rightarrow> bool" where
  "orthogonal_at U f d =
     list_all (\<lambda>i. list_all (\<lambda>k. gram U f d i k = kronecker i k) [0..<d]) [0..<d]"

definition svd_at :: "tensor \<Rightarrow> tensor \<times> tensor \<times> tensor \<Rightarrow> nat list \<Rightarrow> nat \<Rightarrow> bool" where
  "svd_at G usv f d =
     (case usv of
        (U, S, V) \<Rightarrow>
          orthogonal_at U f d \<and> orthogonal_at V f d
          \<and> list_all (\<lambda>i. 0 \<le> val S (f @ [i])) [0..<d]
          \<and> list_all
              (\<lambda>i. list_all
                     (\<lambda>k. val G (f @ [i, k])
                            = (\<Sum>j<d. val U (f @ [i, j]) * val S (f @ [j]) * val V (f @ [k, j])))
                     [0..<d])
              [0..<d])"

text \<open>Sequences of calls on one sampler instance: each call starts from the state the last left.\<close>

fun field_calls ::
  "prims \<Rightarrow> random_field_greens \<Rightarrow> ((nat list \<Rightarrow> real) \<times> nat \<times> overload) list \<Rightarrow>
   random_field_greens outcome list" where
  "field_calls P self [] = []"
| "field_calls P self ((noise, batch, ov) # cs) =
     RandomFieldGreens_forward P noise self batch ov
       # field_calls P (final (RandomFieldGreens_forward P noise self batch ov)) cs"

fun grid_calls ::
  "prims \<Rightarrow> random_grid_greens \<Rightarrow> ((nat list \<Rightarrow> real) \<times> nat \<times> overload) list \<Rightarrow>
   random_grid_greens outcome list" where
  "grid_calls P self [] = []"
| "grid_calls P self ((noise, batch, ov) # cs) =
     RandomGridGreens_forward P noise self batch ov
       # grid_calls P (final (RandomGridGreens_forward P noise self batch ov)) cs"

text \<open>
  Two tensors of \<open>ndim + 2\<close> axes disagree when their batch sizes differ and neither is 1,
  or when their spatial shapes differ.
\<close>

definition disagree :: "nat \<Rightarrow> tensor \<Rightarrow> tensor \<Rightarrow> bool" where
  "disagree ndim x y =
     ((shape_of x ! 0 \<noteq> shape_of y ! 0 \<and> shape_of x ! 0 \<noteq> 1 \<and> shape_of y ! 0 \<noteq> 1)
      \<or> drop 2 (shape_of x) \<noteq> drop 2 (shape_of y))"

text \<open>
  The value that section 4.4 of the spec gives for the filtered noise of the vector-field
  sampler without elastic terms: the noise times the square-rooted kernel, "dividing by
  the square root of voxel volume", the volume being the product of the voxel sizes.
\<close>

definition spec_scalar_filter ::
  "(nat list \<Rightarrow> real) \<Rightarrow> tensor \<Rightarrow> real list \<Rightarrow> nat list \<Rightarrow> nat list \<Rightarrow> real" where
  "spec_scalar_filter noise R voxel_size idx site =
     noise idx * val R site / sqrt (prod_list voxel_size)"

text \<open>A tensor over the lattice (1, 1) whose one entry is a \<open>2 \<times> 2\<close> matrix, or a 2-vector.\<close>

definition matrix_val :: "real list list \<Rightarrow> nat list \<Rightarrow> real" where
  "matrix_val m idx = m ! (idx ! 2) ! (idx ! 3)"

definition vector_val :: "real list \<Rightarrow> nat list \<Rightarrow> real" where
  "vector_val v idx = v ! (idx ! 2)"

section \<open>Concrete instances\<close>

text \<open>Primitives, noise and sampler instances on which the theorems below are evaluated.\<close>

definition P0 :: prims where
  "P0 = \<lparr>greens_val = (\<lambda>_ _ _ _ _ _ _. 1), svd_val = (\<lambda>g. (val g, (\<lambda>_. 1), val g)),
         ifftn_real_val = (\<lambda>_ re _. val re)\<rparr>"

definition noise0 :: "nat list \<Rightarrow> real" where
  "noise0 = (\<lambda>_. 1)"

definition fc0 :: random_field_greens where
  "fc0 = RandomFieldGreens_init (Some [2, 2]) (Scalar 0) 2 (Scalar (1 / 1000)) (Scalar (1 / 10))
           (Scalar 0) (Scalar 1) True"

definition fs0 :: random_field_greens where
  "fs0 = RandomFieldGreens_init (Some [2, 2]) (Scalar 0) 2 (Scalar (1 / 1000)) (Scalar (1 / 10))
           (Scalar 0) (Scalar 1) False"

definition gs0 :: random_grid_greens where
  "gs0 = RandomGridGreens_init (Some [2, 2]) 0 (1 / 10000) (1 / 1000) (2 / 10) (5 / 100, 2 / 10)
           (Scalar 1) False"

definition L0 :: layers where
  "L0 = \<lparr>unet_fn = (\<lambda>t. t), resize_fn = (\<lambda>_ t _ _ _. t), velexp_fn = (\<lambda>_ t _. t),
         pull_fn = (\<lambda>_ t _. t), resize_grid_fn = (\<lambda>t _. t)\<rparr>"

definition vm0 :: voxelmorph where
  "vm0 = \<lparr>vm_dim = 2,
          vm_resize = \<lparr>gr_interpolation = 1, gr_bound = ''dft'', gr_factor = [1 / 2, 1 / 2]\<rparr>,
          vm_velexp = GridExp 1 ''dft'' 8, vm_pull = default_pull\<rparr>"

definition zeros :: "nat list \<Rightarrow> tensor" where
  "zeros s = \<lparr>shape_of = s, val = (\<lambda>_. 0)\<rparr>"

definition gx0 :: random_grid_greens where
  "gx0 = RandomGridGreens_init (Some [1, 1]) 0 1 1 1 (0, 0) (Vector [4, 1]) True"

definition gx1 :: random_grid_greens where
  "gx1 = RandomGridGreens_init (Some [1, 1]) 0 1 1 1 (1, 0) (Scalar 1) True"

text \<open>
  A symmetric positive definite kernel matrix \<open>G = U \<cdot> diag(4, 1) \<cdot> U\<^sup>T\<close> with the rotation
  \<open>U = [[3/5, -4/5], [4/5, 3/5]]\<close>, and primitives that return it and its decomposition.
\<close>

definition G1 :: "real list list" where
  "G1 = [[52 / 25, 36 / 25], [36 / 25, 73 / 25]]"

definition U1 :: "real list list" where
  "U1 = [[3 / 5, - 4 / 5], [4 / 5, 3 / 5]]"

definition P1 :: prims where
  "P1 = P0\<lparr>greens_val := (\<lambda>_ _ _ _ _ _. matrix_val G1),
            svd_val := (\<lambda>_. (matrix_val U1, vector_val [4, 1], matrix_val U1))\<rparr>"

definition noise1 :: "nat list \<Rightarrow> real" where
  "noise1 idx = (if last idx = 0 then 10 else 100)"

definition gc0 :: random_grid_greens where
  "gc0 = RandomGridGreens_init (Some [2, 2]) 0 (1 / 10000) (1 / 1000) (2 / 10) (5 / 100, 2 / 10)
           (Scalar 1) True"

section \<open>The kernel cache of the two Greens samplers\<close>

lemmas eval_defs = RandomFieldGreens_forward_def RandomFieldGreens_init_def
    RandomGridGreens_forward_def RandomGridGreens_init_def no_overload_def get_or_def get_shape_def
    field_cached_def field_build_def field_sample_def field_store_def
    grid_cached_def grid_build_def grid_sqrt_def grid_sample_def grid_filter_def grid_store_def
    torch_stack_def spatial_greens_def any_lame_def
    sqrt_tensor_def map_tensor_def randn_def inplace_op_def broadcast_op_def broadcast_shapes_def
    unsqueeze_last_def unsqueeze_n_def vector_tensor_def ifftn_real_def select_def matvec_def
    torch_svd_def upt_rec Let_def

lemma field_cached_no_channel:
  "fg_attr_channel self = None \<Longrightarrow> field_cached self v c s \<noteq> Inr (Some g)"
  by (simp add: field_cached_def split: option.splits)

lemma field_cached_fresh: "fg_attr_greens self = None \<Longrightarrow> field_cached self v c s = Inr None"
  by (simp add: field_cached_def)

lemma grid_cached_fresh: "gg_attr_greens self = None \<Longrightarrow> grid_cached self v s = Inr None"
  by (simp add: grid_cached_def)

lemma field_cached_stored:
  "fg_attr_channel self = None \<Longrightarrow>
   field_cached
     (self\<lparr>fg_attr_greens := Some g, fg_attr_voxel_size := Some vs, fg_attr_shape := Some s\<rparr>)
     vs c s' = Inl AttributeError"
  by (simp add: field_cached_def)

lemma torch_stack_nonempty: "torch_stack (map f [0..<n]) = Inr g \<Longrightarrow> 0 < n"
  by (cases n) (simp_all add: torch_stack_def)

lemma field_build_calls:
  "field_build P self shape channel vs = (n, Inr x) \<Longrightarrow> 0 < n"
  by (auto simp: field_build_def Let_def split: sum.splits dest: torch_stack_nonempty)

text \<open>
  A first call of \<^verbatim>\<open>RandomFieldGreens.forward\<close> that returns a field, on an instance
  with caching enabled, has stored the kernel, the voxel size and the shape: and nothing
  under \<^verbatim>\<open>_channel\<close>.
\<close>

lemma field_first_success_stores:
  assumes "fg_cache_greens self" "fg_attr_channel self = None"
      and "result (RandomFieldGreens_forward P n1 self b1 ov) = Inr t"
  shows "\<exists>shape vs g. get_shape ov (fg_shape self) = Some shape
           \<and> make_vector (get_or (ov_voxel_size ov) (fg_voxel_size self)) (length shape) = Inr vs
           \<and> final (RandomFieldGreens_forward P n1 self b1 ov)
              = self\<lparr>fg_attr_greens := Some g, fg_attr_voxel_size := Some vs,
                     fg_attr_shape := Some shape\<rparr>"
proof -
  let ?c = "get_or (ov_channel ov) (fg_channel self)"
  obtain shape where s: "get_shape ov (fg_shape self) = Some shape"
    using assms(3)
    by (cases "get_shape ov (fg_shape self)")
       (simp_all add: RandomFieldGreens_forward_def Let_def)
  obtain vs where
    v: "make_vector (get_or (ov_voxel_size ov) (fg_voxel_size self)) (length shape) = Inr vs"
    using assms(3) s
    by (cases "make_vector (get_or (ov_voxel_size ov) (fg_voxel_size self)) (length shape)")
       (simp_all add: RandomFieldGreens_forward_def Let_def)
  have c: "field_cached self vs ?c shape = Inr None"
  proof (cases "field_cached self vs ?c shape")
    case (Inl e)
    then show ?thesis using assms(3) s v by (simp add: RandomFieldGreens_forward_def Let_def)
  next
    case (Inr r)
    then show ?thesis
      using field_cached_no_channel[OF assms(2), of vs ?c shape] by (cases r) auto
  qed
  obtain n r where b: "field_build P self shape ?c vs = (n, r)"
    by (cases "field_build P self shape ?c vs")
  obtain g mean where r: "r = Inr (g, mean)"
    using assms(3) s v c b by (cases r) (auto simp: RandomFieldGreens_forward_def Let_def)
  have "final (RandomFieldGreens_forward P n1 self b1 ov) = field_store self g vs shape"
    using s v c b r by (simp add: RandomFieldGreens_forward_def Let_def)
  then show ?thesis using s v assms(1) by (auto simp: field_store_def)
qed

text \<open>
  C1. The claim: with caching enabled, a second call of \<open>forward\<close> with the same shape,
  voxel size and channel count returns, from the cached kernel. On
  \<^verbatim>\<open>RandomFieldGreens\<close> the code does otherwise: line 290 reads \<^verbatim>\<open>self._channel\<close>, which
  lines 314-316 never store. After a first call that returned a field, every further call
  with the same arguments raises AttributeError, before any kernel is built or used.
\<close>

theorem field_second_call_raises:
  assumes "fg_cache_greens self" "fg_attr_channel self = None"
      and "result (RandomFieldGreens_forward P n1 self b1 ov) = Inr t"
  shows "RandomFieldGreens_forward P n2 (final (RandomFieldGreens_forward P n1 self b1 ov)) b2 ov
         = \<lparr>final = final (RandomFieldGreens_forward P n1 self b1 ov), greens_calls = 0,
            result = Inl AttributeError\<rparr>"
proof -
  from field_first_success_stores[OF assms] obtain shape vs g where
    s: "get_shape ov (fg_shape self) = Some shape"
    and v: "make_vector (get_or (ov_voxel_size ov) (fg_voxel_size self)) (length shape) = Inr vs"
    and f: "final (RandomFieldGreens_forward P n1 self b1 ov)
              = self\<lparr>fg_attr_greens := Some g, fg_attr_voxel_size := Some vs,
                     fg_attr_shape := Some shape\<rparr>"
    by blast
  show ?thesis
    unfolding f using s v
    by (simp add: RandomFieldGreens_forward_def Let_def field_cached_stored[OF assms(2)])
qed

theorem field_second_call_raises_witness:
  "\<not> isl (result (RandomFieldGreens_forward P0 noise0 fc0 2 no_overload))
   \<and> result (RandomFieldGreens_forward P0 noise0
               (final (RandomFieldGreens_forward P0 noise0 fc0 2 no_overload)) 2 no_overload)
     = Inl AttributeError"
proof -
  have c: "fg_cache_greens fc0" "fg_attr_channel fc0 = None"
    by (simp_all add: fc0_def RandomFieldGreens_init_def)
  obtain t where h: "result (RandomFieldGreens_forward P0 noise0 fc0 2 no_overload) = Inr t"
    by (simp add: fc0_def eval_defs)
  show ?thesis using field_second_call_raises[OF c h, of noise0 2] h by simp
qed

text \<open>
  C4. The claim: after a kernel has been built, a change of the penalty weights alone
  triggers no rebuild, and the next call reuses the cached kernel. On
  \<^verbatim>\<open>RandomFieldGreens\<close> the next call builds nothing and reuses nothing: it raises
  AttributeError at the read of \<^verbatim>\<open>self._channel\<close>, whatever the new weights are.
\<close>

theorem field_weights_changed_raises:
  assumes "fg_cache_greens self" "fg_attr_channel self = None"
      and "result (RandomFieldGreens_forward P n1 self b1 ov) = Inr t"
  shows "RandomFieldGreens_forward P n2
           ((final (RandomFieldGreens_forward P n1 self b1 ov))
              \<lparr>fg_absolute := a, fg_membrane := m, fg_bending := bd\<rparr>) b2 ov
         = \<lparr>final = (final (RandomFieldGreens_forward P n1 self b1 ov))
              \<lparr>fg_absolute := a, fg_membrane := m, fg_bending := bd\<rparr>,
            greens_calls = 0, result = Inl AttributeError\<rparr>"
proof -
  from field_first_success_stores[OF assms] obtain shape vs g where
    s: "get_shape ov (fg_shape self) = Some shape"
    and v: "make_vector (get_or (ov_voxel_size ov) (fg_voxel_size self)) (length shape) = Inr vs"
    and f: "final (RandomFieldGreens_forward P n1 self b1 ov)
              = self\<lparr>fg_attr_greens := Some g, fg_attr_voxel_size := Some vs,
                     fg_attr_shape := Some shape\<rparr>"
    by blast
  show ?thesis
    unfolding f using s v assms(2)
    by (simp add: RandomFieldGreens_forward_def Let_def field_cached_def)
qed

theorem field_weights_changed_raises_witness:
  "\<not> isl (result (RandomFieldGreens_forward P0 noise0 fc0 2 no_overload))
   \<and> result (RandomFieldGreens_forward P0 noise0
               ((final (RandomFieldGreens_forward P0 noise0 fc0 2 no_overload))
                  \<lparr>fg_absolute := Scalar 1, fg_membrane := Scalar 2, fg_bending := Scalar 3\<rparr>)
               2 no_overload)
     = Inl AttributeError"
proof -
  have c: "fg_cache_greens fc0" "fg_attr_channel fc0 = None"
    by (simp_all add: fc0_def RandomFieldGreens_init_def)
  obtain t where h: "result (RandomFieldGreens_forward P0 noise0 fc0 2 no_overload) = Inr t"
    by (simp add: fc0_def eval_defs)
  show ?thesis
    using field_weights_changed_raises[where a = "Scalar 1" and m = "Scalar 2"
        and bd = "Scalar 3" and ?n2.0 = noise0 and ?b2.0 = 2, OF c h] h
    by simp
qed

text \<open>
  C3. The claim: the scalar sampler called with shape (16, 16), one channel and a batch
  of 1000 returns an array of shape (1000, 1, 16, 16). The code raises instead, whatever
  the kernel values and the noise: line 320 multiplies the noise of shape
  (2, 1000, 1, 16, 16) in place by \<^verbatim>\<open>greens.unsqueeze(-1)\<close> of shape (1, 16, 16, 1), which
  broadcasts to (2, 1000, 16, 16, 16).
\<close>

theorem field_forward_16x16_raises:
  "result (RandomFieldGreens_forward P noise
     (RandomFieldGreens_init (Some [16, 16]) (Scalar 0) 1 (Scalar (1 / 1000)) (Scalar (1 / 10))
        (Scalar 0) (Scalar 1) cache)
     1000 no_overload) = Inl RuntimeError"
  by (simp add: RandomFieldGreens_forward_def RandomFieldGreens_init_def no_overload_def get_or_def
      get_shape_def field_cached_def field_build_def field_sample_def torch_stack_def
      spatial_greens_def any_lame_def sqrt_tensor_def map_tensor_def randn_def inplace_op_def
      broadcast_op_def broadcast_shapes_def unsqueeze_last_def upt_rec Let_def)

text \<open>When \<^verbatim>\<open>RandomFieldGreens.forward\<close> does return, the field has the documented shape.\<close>

lemma inplace_op_shape: "inplace_op f a b = Inr r \<Longrightarrow> shape_of r = shape_of a"
  by (auto simp: inplace_op_def split: sum.splits if_splits)

lemma field_sample_shape:
  "field_sample P noise g mean batch channel shape = Inr t \<Longrightarrow>
   shape_of t = [batch, channel] @ shape"
  by (auto simp: field_sample_def Let_def randn_def ifftn_real_def select_def map_tensor_def
      split: sum.splits option.splits dest!: inplace_op_shape)

theorem field_forward_shape:
  assumes "result (RandomFieldGreens_forward P noise self batch ov) = Inr t"
  shows "\<exists>shape. get_shape ov (fg_shape self) = Some shape
          \<and> shape_of t = [batch, get_or (ov_channel ov) (fg_channel self)] @ shape"
  using assms
  by (auto simp: RandomFieldGreens_forward_def Let_def
      split: option.splits sum.splits prod.splits dest: field_sample_shape)

theorem field_forward_shape_witness:
  "\<not> isl (result (RandomFieldGreens_forward P0 noise0 fc0 2 no_overload))
   \<and> shape_of (projr (result (RandomFieldGreens_forward P0 noise0 fc0 2 no_overload)))
     = [2, 2, 2, 2]"
proof -
  obtain t where h: "result (RandomFieldGreens_forward P0 noise0 fc0 2 no_overload) = Inr t"
    by (simp add: fc0_def eval_defs)
  show ?thesis
    using field_forward_shape[OF h] h
    by (auto simp: fc0_def RandomFieldGreens_init_def get_shape_def get_or_def no_overload_def)
qed

text \<open>Without caching, a call leaves the instance as it found it and builds its kernel.\<close>

lemma field_forward_fresh:
  assumes "\<not> fg_cache_greens self" "fg_attr_greens self = None"
  shows "final (RandomFieldGreens_forward P noise self batch ov) = self
       \<and> (greens_calls (RandomFieldGreens_forward P noise self batch ov) = 0
            \<longrightarrow> isl (result (RandomFieldGreens_forward P noise self batch ov)))"
proof (cases "get_shape ov (fg_shape self)")
  case None
  then show ?thesis by (simp add: RandomFieldGreens_forward_def Let_def)
next
  case (Some shape)
  show ?thesis
  proof (cases "make_vector (get_or (ov_voxel_size ov) (fg_voxel_size self)) (length shape)")
    case (Inl e)
    then show ?thesis using Some by (simp add: RandomFieldGreens_forward_def Let_def)
  next
    case (Inr vs)
    obtain n r where
      b: "field_build P self shape (get_or (ov_channel ov) (fg_channel self)) vs = (n, r)"
      by (cases "field_build P self shape (get_or (ov_channel ov) (fg_channel self)) vs")
    show ?thesis
    proof (cases r)
      case (Inl e)
      then show ?thesis using Some Inr b assms
        by (simp add: RandomFieldGreens_forward_def Let_def field_cached_fresh)
    next
      case r: (Inr x)
      obtain g mean where x: "x = (g, mean)" by (cases x)
      have "0 < n" using b r field_build_calls by blast
      then show ?thesis using Some Inr b r x assms
        by (simp add: RandomFieldGreens_forward_def Let_def field_cached_fresh field_store_def)
    qed
  qed
qed

lemma grid_forward_fresh:
  assumes "\<not> gg_cache_greens self" "gg_attr_greens self = None"
  shows "final (RandomGridGreens_forward P noise self batch ov) = self
       \<and> (greens_calls (RandomGridGreens_forward P noise self batch ov) = 0
            \<longrightarrow> isl (result (RandomGridGreens_forward P noise self batch ov)))"
proof (cases "get_shape ov (gg_shape self)")
  case None
  then show ?thesis by (simp add: RandomGridGreens_forward_def Let_def)
next
  case (Some shape)
  show ?thesis
  proof (cases "make_vector (get_or (ov_voxel_size ov) (gg_voxel_size self)) (length shape)")
    case (Inl e)
    then show ?thesis using Some by (simp add: RandomGridGreens_forward_def Let_def)
  next
    case (Inr vs)
    show ?thesis
    proof (cases "grid_build P self shape vs")
      case (Inl e)
      then show ?thesis using Some Inr assms
        by (simp add: RandomGridGreens_forward_def Let_def grid_cached_fresh)
    next
      case r: (Inr g)
      then show ?thesis using Some Inr assms
        by (simp add: RandomGridGreens_forward_def Let_def grid_cached_fresh grid_store_def)
    qed
  qed
qed

lemma field_calls_fresh:
  assumes "\<not> fg_cache_greens self" "fg_attr_greens self = None"
  shows "list_all (\<lambda>out. final out = self \<and> (greens_calls out = 0 \<longrightarrow> isl (result out)))
           (field_calls P self cs)"
proof (induction cs)
  case Nil
  show ?case by simp
next
  case (Cons c cs)
  obtain noise batch ov where c: "c = (noise, batch, ov)" by (cases c)
  show ?case using Cons field_forward_fresh[OF assms, of P noise batch ov] by (simp add: c)
qed

lemma grid_calls_fresh:
  assumes "\<not> gg_cache_greens self" "gg_attr_greens self = None"
  shows "list_all (\<lambda>out. final out = self \<and> (greens_calls out = 0 \<longrightarrow> isl (result out)))
           (grid_calls P self cs)"
proof (induction cs)
  case Nil
  show ?case by simp
next
  case (Cons c cs)
  obtain noise batch ov where c: "c = (noise, batch, ov)" by (cases c)
  show ?case using Cons grid_forward_fresh[OF assms, of P noise batch ov] by (simp add: c)
qed

text \<open>
  C9. A Greens sampler (of either class) with \<^verbatim>\<open>cache_greens=False\<close> and no \<^verbatim>\<open>_greens\<close>
  attribute: over any sequence of calls of \<open>forward\<close>, every call leaves the instance
  exactly as it was (no attribute is created, whether the call returns or raises), and
  every call that returns a field has called \<^verbatim>\<open>spatial.greens\<close> to build its kernel.
\<close>

theorem uncached_sampler_never_stores:
  assumes "\<not> fg_cache_greens fs" "fg_attr_greens fs = None"
      and "\<not> gg_cache_greens gs" "gg_attr_greens gs = None"
  shows "list_all (\<lambda>out. final out = fs \<and> (greens_calls out = 0 \<longrightarrow> isl (result out)))
           (field_calls P fs cs)
       \<and> list_all (\<lambda>out. final out = gs \<and> (greens_calls out = 0 \<longrightarrow> isl (result out)))
           (grid_calls P gs cs')"
  using field_calls_fresh[OF assms(1,2)] grid_calls_fresh[OF assms(3,4)] by blast

theorem uncached_sampler_never_stores_witness:
  "map (\<lambda>out. (final out = fs0, greens_calls out, isl (result out)))
     (field_calls P0 fs0 [(noise0, 2, no_overload), (noise0, 2, no_overload)])
     = [(True, 2, False), (True, 2, False)]
   \<and> map (\<lambda>out. (final out = gs0, greens_calls out, isl (result out)))
     (grid_calls P0 gs0 [(noise0, 3, no_overload), (noise0, 3, no_overload)])
     = [(True, 1, False), (True, 1, False)]"
proof -
  have a: "\<not> fg_cache_greens fs0" "fg_attr_greens fs0 = None"
    by (simp_all add: fs0_def RandomFieldGreens_init_def)
  have b: "\<not> gg_cache_greens gs0" "gg_attr_greens gs0 = None"
    by (simp_all add: gs0_def RandomGridGreens_init_def)
  have f1: "final (RandomFieldGreens_forward P0 noise0 fs0 2 no_overload) = fs0"
    using field_forward_fresh[OF a] by simp
  have g1: "final (RandomGridGreens_forward P0 noise0 gs0 3 no_overload) = gs0"
    using grid_forward_fresh[OF b] by simp
  have f2: "greens_calls (RandomFieldGreens_forward P0 noise0 fs0 2 no_overload) = 2"
    by (simp add: fs0_def eval_defs)
  have f3: "\<not> isl (result (RandomFieldGreens_forward P0 noise0 fs0 2 no_overload))"
    by (simp add: fs0_def eval_defs)
  have g2: "greens_calls (RandomGridGreens_forward P0 noise0 gs0 3 no_overload) = 1"
    by (simp add: gs0_def eval_defs P0_def split: prod.splits)
  have g3: "\<not> isl (result (RandomGridGreens_forward P0 noise0 gs0 3 no_overload))"
    by (simp add: gs0_def eval_defs P0_def split: prod.splits)
  show ?thesis
    using uncached_sampler_never_stores[OF a b, of P0
        "[(noise0, 2, no_overload), (noise0, 2, no_overload)]"
        "[(noise0, 3, no_overload), (noise0, 3, no_overload)]"] f1 f2 f3 g1 g2 g3
    by simp
qed

section \<open>VoxelMorph: validation and exponentiation\<close>

lemma check_shape_in_range:
  assumes "\<forall>d\<in>set ds. d < length (shape_of x) \<and> d < length (shape_of y)"
  shows "check_shape (Some x) (Some y) ds b =
           (if \<forall>d\<in>set ds. shape_of x ! d = shape_of y ! d
                              \<or> (b \<and> (shape_of x ! d = 1 \<or> shape_of y ! d = 1))
            then Inr () else Inl ValueError)"
  using assms by (induction ds) auto

lemma drop2_eq_iff:
  assumes "length xs = n + 2" "length ys = n + 2"
  shows "(drop 2 xs = drop 2 ys) = (\<forall>d\<in>set [2..<n + 2]. xs ! d = ys ! d)"
proof -
  have "(drop 2 xs = drop 2 ys) = (\<forall>i<n. drop 2 xs ! i = drop 2 ys ! i)"
    using assms by (simp add: list_eq_iff_nth_eq)
  also have "\<dots> = (\<forall>i<n. xs ! (i + 2) = ys ! (i + 2))"
    using assms by (simp add: add.commute)
  also have "\<dots> = (\<forall>d\<in>set [2..<n + 2]. xs ! d = ys ! d)"
  proof
    assume h: "\<forall>i<n. xs ! (i + 2) = ys ! (i + 2)"
    show "\<forall>d\<in>set [2..<n + 2]. xs ! d = ys ! d"
    proof
      fix d assume "d \<in> set [2..<n + 2]"
      then have "d - 2 < n" "d = (d - 2) + 2" by (auto simp del: upt_Suc)
      then show "xs ! d = ys ! d" using h by metis
    qed
  next
    assume h: "\<forall>d\<in>set [2..<n + 2]. xs ! d = ys ! d"
    show "\<forall>i<n. xs ! (i + 2) = ys ! (i + 2)"
    proof (intro allI impI)
      fix i assume "i < n"
      then have "i + 2 \<in> set [2..<n + 2]" by (auto simp del: upt_Suc)
      then show "xs ! (i + 2) = ys ! (i + 2)" using h by blast
    qed
  qed
  finally show ?thesis .
qed

lemma check_batch:
  assumes "length (shape_of x) = n + 2" "length (shape_of y) = n + 2"
  shows "check_shape (Some y) (Some x) [0] True
         = (if shape_of x ! 0 \<noteq> shape_of y ! 0 \<and> shape_of x ! 0 \<noteq> 1 \<and> shape_of y ! 0 \<noteq> 1
            then Inl ValueError else Inr ())"
  using assms by auto

lemma check_spatial:
  assumes "length (shape_of x) = n + 2" "length (shape_of y) = n + 2"
  shows "check_shape (Some y) (Some x) [2..<n + 2] False
         = (if drop 2 (shape_of x) \<noteq> drop 2 (shape_of y) then Inl ValueError else Inr ())"
proof -
  have r2: "\<forall>d\<in>set [2..<n + 2]. d < length (shape_of y) \<and> d < length (shape_of x)"
    using assms by (simp del: upt_Suc)
  have sp: "(drop 2 (shape_of y) = drop 2 (shape_of x))
              = (\<forall>d\<in>set [2..<n + 2]. shape_of y ! d = shape_of x ! d)"
    using drop2_eq_iff[OF assms(2) assms(1)] .
  have "check_shape (Some y) (Some x) [2..<n + 2] False
        = (if \<forall>d\<in>set [2..<n + 2]. shape_of y ! d = shape_of x ! d then Inr () else Inl ValueError)"
    unfolding check_shape_in_range[OF r2] by simp
  also have "\<dots> = (if drop 2 (shape_of x) \<noteq> drop 2 (shape_of y) then Inl ValueError else Inr ())"
    unfolding sp[symmetric] by auto
  finally show ?thesis .
qed

lemma checks_fail_early:
  "VoxelMorph_checks self s t ss ts = Inl e \<Longrightarrow>
   VoxelMorph_forward L self s t ss ts = ([], Inl e)"
  by (simp add: VoxelMorph_forward_def)

text \<open>
  C6. When source and target (each with \<open>dim + 2\<close> axes) disagree in batch size, neither
  being 1, or in spatial shape, or when both segmentation maps are given and disagree in
  the same way, \<^verbatim>\<open>VoxelMorph.forward\<close> fails with the contract violation and has called
  no layer: the list of calls is empty. More generally, whenever one of the sanity checks
  of lines 216-220 fails, that error is what \<open>forward\<close> raises and no layer has been
  called.
\<close>

theorem forward_validates_first:
  assumes "length (shape_of source) = vm_dim self + 2"
      and "length (shape_of target) = vm_dim self + 2"
      and "disagree (vm_dim self) source target
           \<or> (\<exists>ss ts. source_seg = Some ss \<and> target_seg = Some ts
                \<and> length (shape_of ss) = vm_dim self + 2
                \<and> length (shape_of ts) = vm_dim self + 2
                \<and> disagree (vm_dim self) ss ts)"
  shows "VoxelMorph_forward L self source target source_seg target_seg = ([], Inl ValueError)
       \<and> (\<forall>e s t ss ts. VoxelMorph_checks self s t ss ts = Inl e
              \<longrightarrow> VoxelMorph_forward L self s t ss ts = ([], Inl e))"
proof -
  have d: "check_dim (vm_dim self) [Some source, Some target] = Inr ()"
    using assms(1,2) by (simp add: check_dim_def)
  note b1 = check_batch[OF assms(1,2)]
  note s1 = check_spatial[OF assms(1,2)]
  have c: "VoxelMorph_checks self source target source_seg target_seg = Inl ValueError"
  proof (cases "disagree (vm_dim self) source target")
    case True
    show ?thesis
      unfolding VoxelMorph_checks_def d b1 s1 using True
      by (auto simp: disagree_def)
  next
    case False
    then obtain ss ts where seg: "source_seg = Some ss" "target_seg = Some ts"
      "length (shape_of ss) = vm_dim self + 2" "length (shape_of ts) = vm_dim self + 2"
      "disagree (vm_dim self) ss ts"
      using assms(3) by blast
    note b2 = check_batch[OF seg(3,4)]
    note s2 = check_spatial[OF seg(3,4)]
    show ?thesis
      unfolding VoxelMorph_checks_def d b1 s1 seg(1,2) b2 s2 using False seg(5)
      by (auto simp: disagree_def)
  qed
  show ?thesis using c checks_fail_early by blast
qed

theorem forward_validates_first_witness:
  "VoxelMorph_forward L0 vm0 (zeros [2, 1, 32, 32]) (zeros [3, 1, 32, 32]) None None
     = ([], Inl ValueError)
   \<and> VoxelMorph_forward L0 vm0 (zeros [2, 1, 32, 32]) (zeros [2, 1, 32, 16]) None None
     = ([], Inl ValueError)
   \<and> VoxelMorph_forward L0 vm0 (zeros [2, 1, 32, 32]) (zeros [2, 1, 32, 32])
       (Some (zeros [2, 4, 32, 32])) (Some (zeros [2, 4, 16, 32]))
     = ([], Inl ValueError)"
proof -
  have a: "length (shape_of (zeros [2, 1, 32, 32])) = vm_dim vm0 + 2"
    "length (shape_of (zeros [3, 1, 32, 32])) = vm_dim vm0 + 2"
    "length (shape_of (zeros [2, 1, 32, 16])) = vm_dim vm0 + 2"
    by (simp_all add: zeros_def vm0_def)
  have b: "disagree (vm_dim vm0) (zeros [2, 1, 32, 32]) (zeros [3, 1, 32, 32])
     \<or> (\<exists>ss ts. None = Some ss \<and> None = Some ts
                \<and> length (shape_of ss) = vm_dim vm0 + 2
                \<and> length (shape_of ts) = vm_dim vm0 + 2
                \<and> disagree (vm_dim vm0) ss ts)"
    by (simp add: disagree_def zeros_def)
  have c: "disagree (vm_dim vm0) (zeros [2, 1, 32, 32]) (zeros [2, 1, 32, 16])
     \<or> (\<exists>ss ts. None = Some ss \<and> None = Some ts
                \<and> length (shape_of ss) = vm_dim vm0 + 2
                \<and> length (shape_of ts) = vm_dim vm0 + 2
                \<and> disagree (vm_dim vm0) ss ts)"
    by (simp add: disagree_def zeros_def)
  have d: "disagree (vm_dim vm0) (zeros [2, 1, 32, 32]) (zeros [2, 1, 32, 32])
     \<or> (\<exists>ss ts. Some (zeros [2, 4, 32, 32]) = Some ss \<and> Some (zeros [2, 4, 16, 32]) = Some ts
                \<and> length (shape_of ss) = vm_dim vm0 + 2
                \<and> length (shape_of ts) = vm_dim vm0 + 2
                \<and> disagree (vm_dim vm0) ss ts)"
    by (simp add: disagree_def zeros_def vm0_def)
  show ?thesis
    using forward_validates_first[OF a(1) a(2) b, of L0]
      forward_validates_first[OF a(1) a(3) c, of L0]
      forward_validates_first[OF a(1) a(1) d, of L0]
    by simp
qed

text \<open>
  C7. \<^verbatim>\<open>VoxelMorph.exp\<close> makes exactly three calls, in this order: the resize layer on the
  velocity with type \<open>displacement\<close> and the layer's own factor (the reciprocal of the
  downsampling factor given to the constructor); the exponentiation layer on the resized
  velocity with the caller's \<open>displacement\<close> flag; the resize layer on the result with the
  native spatial shape of the velocity, no factor, and type \<open>disp\<close> when a displacement
  was requested and \<open>grid\<close> otherwise. The grid returned has the spatial shape of the
  velocity.
\<close>

theorem exp_state_machine:
  assumes "VoxelMorph_init ndim pull exp_p = Inr self"
  shows "(let factor = Some (gr_factor (vm_resize self));
              small = GridResize_forward L (vm_resize self) velocity ''displacement'' None factor;
              grid = velexp_fn L (vm_velexp self) small displacement;
              type = (if displacement then ''disp'' else ''grid'');
              native = Some (spatial_shape velocity)
          in VoxelMorph_exp L self velocity displacement
             = ([Resize velocity ''displacement'' None factor,
                 VelExp small displacement,
                 Resize grid type native None],
                GridResize_forward L (vm_resize self) grid type native None))
       \<and> spatial_shape (snd (VoxelMorph_exp L self velocity displacement)) = spatial_shape velocity
       \<and> (\<exists>ds. make_vector (ep_downsample exp_p) ndim = Inr ds
                \<and> gr_factor (vm_resize self) = map (\<lambda>f. 1 / f) ds)"
proof -
  have "spatial_shape (snd (VoxelMorph_exp L self velocity displacement)) = spatial_shape velocity"
    by (simp add: VoxelMorph_exp_def GridResize_forward_def spatial_shape_def Let_def)
  moreover have "\<exists>ds. make_vector (ep_downsample exp_p) ndim = Inr ds
                \<and> gr_factor (vm_resize self) = map (\<lambda>f. 1 / f) ds"
    using assms by (auto simp: VoxelMorph_init_def split: sum.splits if_splits)
  ultimately show ?thesis by (simp add: VoxelMorph_exp_def Let_def)
qed

theorem exp_state_machine_witness:
  "VoxelMorph_init 2 default_pull default_exp = Inr vm0
   \<and> fst (VoxelMorph_exp L0 vm0 (zeros [2, 32, 32, 2]) False)
      = [Resize (zeros [2, 32, 32, 2]) ''displacement'' None (Some [1 / 2, 1 / 2]),
         VelExp (zeros [2, 32, 32, 2]) False,
         Resize (zeros [2, 32, 32, 2]) ''grid'' (Some [32, 32]) None]
   \<and> shape_of (snd (VoxelMorph_exp L0 vm0 (zeros [2, 32, 32, 2]) False)) = [2, 32, 32, 2]"
proof -
  have i: "VoxelMorph_init 2 default_pull default_exp = Inr vm0"
    by (simp add: VoxelMorph_init_def default_exp_def vm0_def eval_nat_numeral)
  show ?thesis
    using exp_state_machine[OF i, of L0 "zeros [2, 32, 32, 2]" False] i
    by (simp add: Let_def GridResize_forward_def L0_def vm0_def spatial_shape_def zeros_def)
qed


section \<open>The spectral filter of RandomGridGreens\<close>

lemma broadcast_rev_Nil2: "broadcast_rev xs [] = Some xs"
  by (cases xs) simp_all

lemma broadcast_rev_prefix: "broadcast_rev (xs @ zs) xs = Some (xs @ zs)"
  by (induction xs) (simp_all add: broadcast_rev_Nil2)

lemma broadcast_rev_prefix': "broadcast_rev xs (xs @ zs) = Some (xs @ zs)"
  by (induction xs) simp_all

lemma broadcast_rev_same: "broadcast_rev xs xs = Some xs"
  using broadcast_rev_prefix[of xs "[]"] by simp

lemma broadcast_noise_kernel:
  "broadcast_shapes ([2, B] @ S @ [d]) (S @ [1]) = Some ([2, B] @ S @ [d])"
  using broadcast_rev_prefix[of "rev S" "[B, 2]"]
  by (simp add: broadcast_shapes_def)

lemma broadcast_noise_vector:
  "broadcast_shapes ([2, B] @ S @ [d]) [d] = Some ([2, B] @ S @ [d])"
  by (simp add: broadcast_shapes_def broadcast_rev_Nil2)

lemma broadcast_batch: "broadcast_shapes S ([2, B] @ S) = Some ([2, B] @ S)"
  using broadcast_rev_prefix'[of "rev S" "[B, 2]"]
  by (simp add: broadcast_shapes_def)

lemma map2_valid:
  "list_all2 (<) (idx :: nat list) s \<Longrightarrow> map2 (\<lambda>n i. if n = Suc 0 then 0 else i) s idx = idx"
  by (induction idx s rule: list_all2_induct) auto

lemma bindex_valid: "valid_index s idx \<Longrightarrow> bindex s idx = idx"
  by (simp add: bindex_def valid_index_def map2_valid)

lemma bindex_suffix:
  "valid_index s idx \<Longrightarrow> bindex s (pre @ idx) = idx"
  by (simp add: bindex_def valid_index_def map2_valid)

lemma valid_index_app:
  "valid_index s idx \<Longrightarrow> valid_index s' idx' \<Longrightarrow> valid_index (s @ s') (idx @ idx')"
  by (simp add: valid_index_def list_all2_appendI)

lemma valid_index_Cons: "i < n \<Longrightarrow> valid_index s idx \<Longrightarrow> valid_index (n # s) (i # idx)"
  by (simp add: valid_index_def)

lemma valid_index_single: "i < n \<Longrightarrow> valid_index [n] [i]"
  by (simp add: valid_index_def)

lemma bindex_unsqueezed:
  assumes "valid_index S site"
  shows "bindex (S @ [1]) (pre @ site @ [j]) = site @ [0]"
proof -
  have l: "length site = length S" using assms by (simp add: valid_index_def)
  have "drop (length (pre @ site @ [j]) - length (S @ [1])) (pre @ site @ [j]) = site @ [j]"
    using l by simp
  moreover have "map2 (\<lambda>n i. if n = 1 then 0 else i) (S @ [1]) (site @ [j])
      = map2 (\<lambda>n i. if n = 1 then 0 else i) S site @ [0]"
    using l by simp
  ultimately show ?thesis
    using assms by (simp add: bindex_def valid_index_def map2_valid del: drop_append)
qed

lemma make_vector_length: "make_vector v n = Inr xs \<Longrightarrow> length xs = n"
  by (cases v) (auto split: if_splits)

lemma make_vector_list: "length vs = n \<Longrightarrow> make_vector (Vector vs) n = Inr vs"
  by simp

lemma grid_build_scalar:
  "\<not> any_lame (gg_lame self) \<Longrightarrow>
   grid_build P self S vs
     = Inr (sqrt_tensor (spatial_greens P S (gg_absolute self) (gg_membrane self)
              (gg_bending self) (gg_lame self) vs))"
  by (simp add: grid_build_def grid_sqrt_def)

lemma spatial_greens_shape:
  "shape_of (spatial_greens P S a m b lame vs)
     = (if any_lame lame then S @ [length S, length S] else S)"
  by (simp add: spatial_greens_def)

lemma grid_build_shape:
  assumes "grid_build P self S vs = Inr R"
  shows "shape_of R = (if any_lame (gg_lame self) then S @ [length S, length S] else S)"
proof (cases "any_lame (gg_lame self)")
  case False
  then show ?thesis using assms
    by (auto simp: grid_build_scalar sqrt_tensor_def map_tensor_def spatial_greens_shape)
next
  case True
  obtain u s v where usv: "torch_svd P (spatial_greens P S (gg_absolute self) (gg_membrane self)
              (gg_bending self) (gg_lame self) vs) = (u, s, v)"
    by (cases "torch_svd P (spatial_greens P S (gg_absolute self) (gg_membrane self)
              (gg_bending self) (gg_lame self) vs)") 
  then have "shape_of u = S @ [length S, length S]"
    using True by (auto simp: torch_svd_def spatial_greens_shape split: prod.splits)
  moreover have "inplace_op (*) u (unsqueeze_last (sqrt_tensor s)) = Inr R"
    using assms True usv by (simp add: grid_build_def grid_sqrt_def)
  ultimately show ?thesis using True
    by (auto simp: inplace_op_def split: sum.splits if_splits)
qed

lemma grid_filter_scalar:
  assumes "shape_of R = S" "length vs = length S"
      and "p < 2" "b < B" "valid_index S site" "j < length S"
  shows "\<exists>t. grid_filter R (randn noise ([2, B] @ S @ [length S])) vs (length S) = Inr t
           \<and> shape_of t = [2, B] @ S @ [length S]
           \<and> val t (p # b # site @ [j]) = noise (p # b # site @ [j]) * val R site / sqrt (vs ! j)"
proof -
  let ?sh = "[2, B] @ S @ [length S]"
  let ?idx = "p # b # site @ [j]"
  have v: "valid_index ?sh ?idx"
    using assms(3-6) by (simp add: valid_index_def list_all2_appendI)
  have b1: "bindex ?sh ?idx = ?idx" using bindex_valid[OF v] .
  have b2: "bindex (S @ [1]) ?idx = site @ [0]"
    using bindex_unsqueezed[OF assms(5), of "[p, b]" j] by simp
  have b3: "bindex [length vs] ?idx = [j]"
    using bindex_suffix[OF valid_index_single, of j "length vs" "p # b # site"] assms(2,6) by simp
  show ?thesis
    using assms(1,2,6) b1 b2 b3
    by (simp add: grid_filter_def broadcast_op_def randn_def unsqueeze_last_def
        broadcast_noise_kernel[simplified] broadcast_noise_vector[simplified]
        sqrt_tensor_def map_tensor_def vector_tensor_def)
qed

lemma grid_filter_matrix:
  assumes "shape_of R = S @ [length S, length S]"
      and "p < 2" "b < B" "valid_index S site" "j < length S"
  shows "\<exists>t. grid_filter R (randn noise ([2, B] @ S @ [length S])) vs (length S) = Inr t
           \<and> shape_of t = [2, B] @ S @ [length S]
           \<and> val t (p # b # site @ [j])
               = (\<Sum>k<length S. val R (site @ [j, k]) * noise (p # b # site @ [k]))"
proof -
  have v: "valid_index ([2, B] @ S) (p # b # site)"
    using assms(2-4) by (simp add: valid_index_def)
  have b1: "bindex ([2, B] @ S) (p # b # site) = p # b # site" using bindex_valid[OF v] .
  have b2: "bindex S (p # b # site) = site"
    using bindex_suffix[OF assms(4), of "[p, b]"] by simp
  have bl: "butlast (p # b # site @ [j]) = p # b # site" 
    by (simp add: butlast_append)
  show ?thesis
    using assms(1) b1 b2
    by (simp add: grid_filter_def matvec_def randn_def Let_def butlast_append bl
        broadcast_batch[simplified])
qed

text \<open>
  C5 (amended). In the spectral filter of \<^verbatim>\<open>RandomGridGreens\<close>, on the kernel \<open>R\<close> built by
  lines 413-427: without Lame terms, the noise at every site is multiplied by the
  square-rooted scalar kernel at that site, and component \<open>j\<close> of the product is divided
  by the square root of the voxel size of axis \<open>j\<close> (not by the square root of the voxel
  volume); with Lame terms, the matrix \<open>R\<close> of the site is applied to the \<open>d\<close>-vector at
  the site. Both hold for the real (\<open>p = 0\<close>) and the imaginary (\<open>p = 1\<close>) noise array
  with the same \<open>R\<close>, each array being filtered from its own entries only.
\<close>

theorem grid_filter_values:
  assumes "grid_build P self S vs = Inr R"
      and "make_vector voxel (length S) = Inr vs"
      and "p < 2" "b < B" "valid_index S site" "j < length S"
  shows "\<exists>t. grid_filter R (randn noise ([2, B] @ S @ [length S])) vs (length S) = Inr t
           \<and> shape_of t = [2, B] @ S @ [length S]
           \<and> (\<not> any_lame (gg_lame self) \<longrightarrow>
                val t (p # b # site @ [j])
                  = noise (p # b # site @ [j]) * val R site / sqrt (vs ! j))
           \<and> (any_lame (gg_lame self) \<longrightarrow>
                val t (p # b # site @ [j])
                  = (\<Sum>k<length S. val R (site @ [j, k]) * noise (p # b # site @ [k])))"
proof (cases "any_lame (gg_lame self)")
  case True
  then have "shape_of R = S @ [length S, length S]"
    using grid_build_shape[OF assms(1)] by simp
  from grid_filter_matrix[OF this assms(3-6), of noise vs] True show ?thesis by auto
next
  case False
  then have "shape_of R = S" using grid_build_shape[OF assms(1)] by simp
  from grid_filter_scalar[OF this make_vector_length[OF assms(2)] assms(3-6), of noise] False
  show ?thesis by auto
qed

lemmas grid_eval = grid_build_def grid_sqrt_def grid_filter_def spatial_greens_def any_lame_def
  RandomGridGreens_init_def torch_svd_def sqrt_tensor_def map_tensor_def randn_def
  inplace_op_def broadcast_op_def broadcast_shapes_def unsqueeze_last_def vector_tensor_def
  matvec_def bindex_def Let_def

text \<open>
  C5 as stated fails: for voxel sizes (4, 1) on a lattice of one site, with kernel and
  noise equal to 1, component 1 of the filtered noise is \<open>1 / sqrt 1 = 1\<close>, where division
  by the square root of the voxel volume would give \<open>1 / sqrt 4 = 1 / 2\<close>.
\<close>

theorem grid_filter_volume_counterexample:
  "\<not> any_lame (gg_lame gx0)
   \<and> \<not> isl (grid_build P0 gx0 [1, 1] [4, 1])
   \<and> \<not> isl (grid_filter (projr (grid_build P0 gx0 [1, 1] [4, 1]))
              (randn noise0 [2, 1, 1, 1, 2]) [4, 1] 2)
   \<and> val (projr (grid_filter (projr (grid_build P0 gx0 [1, 1] [4, 1]))
              (randn noise0 [2, 1, 1, 1, 2]) [4, 1] 2)) [0, 0, 0, 0, 1]
      \<noteq> spec_scalar_filter noise0 (projr (grid_build P0 gx0 [1, 1] [4, 1])) [4, 1]
           [0, 0, 0, 0, 1] [0, 0]"
  by (simp add: gx0_def P0_def noise0_def spec_scalar_filter_def grid_eval)

theorem grid_filter_values_witness:
  "val (projr (grid_filter (projr (grid_build P0 gx0 [1, 1] [4, 1]))
              (randn noise0 [2, 1, 1, 1, 2]) [4, 1] 2)) [0, 0, 0, 0, 0] = 1 / 2
   \<and> val (projr (grid_filter (projr (grid_build P1 gx1 [1, 1] [1, 1]))
              (randn noise1 [2, 1, 1, 1, 2]) [1, 1] 2)) [0, 0, 0, 0, 0] = - 148"
proof -
  have p: "(0::nat) < 2" and b: "(0::nat) < 1" and j: "0 < length [1::nat, 1]" by simp_all
  have vi: "valid_index [1, 1] [0, 0]" by (simp add: valid_index_def)
  obtain R where R: "grid_build P0 gx0 [1, 1] [4, 1] = Inr R"
    by (simp add: gx0_def grid_eval)
  have mv: "make_vector (Vector [4, 1]) (length [1::nat, 1]) = Inr [4, 1]" by simp
  have l0: "\<not> any_lame (gg_lame gx0)" by (simp add: gx0_def grid_eval)
  have "\<exists>t. grid_filter R (randn noise0 ([2, 1] @ [1, 1] @ [length [1::nat, 1]])) [4, 1]
               (length [1::nat, 1]) = Inr t
           \<and> val t (0 # 0 # [0, 0] @ [0])
               = noise0 (0 # 0 # [0, 0] @ [0]) * val R [0, 0] / sqrt ([4, 1] ! 0)"
    using grid_filter_values[OF R mv p b vi j, of noise0] l0 by blast
  then obtain t where
    t: "grid_filter R (randn noise0 ([2, 1] @ [1, 1] @ [length [1::nat, 1]])) [4, 1]
               (length [1::nat, 1]) = Inr t"
    and tv: "val t (0 # 0 # [0, 0] @ [0])
               = noise0 (0 # 0 # [0, 0] @ [0]) * val R [0, 0] / sqrt ([4, 1] ! 0)"
    by blast
  have Rv: "val R [0, 0] = 1"
    using R by (auto simp: gx0_def P0_def grid_eval)
  have a: "val (projr (grid_filter (projr (grid_build P0 gx0 [1, 1] [4, 1]))
              (randn noise0 [2, 1, 1, 1, 2]) [4, 1] 2)) [0, 0, 0, 0, 0] = 1 / 2"
    using t tv R Rv by (simp add: noise0_def numeral_2_eq_2)
  obtain Q where Q: "grid_build P1 gx1 [1, 1] [1, 1] = Inr Q"
    by (simp add: gx1_def P1_def P0_def grid_eval)
  have mv1: "make_vector (Scalar 1) (length [1::nat, 1]) = Inr [1, 1]"
    by (simp add: eval_nat_numeral)
  have l1: "any_lame (gg_lame gx1)" by (simp add: gx1_def grid_eval)
  have "\<exists>u. grid_filter Q (randn noise1 ([2, 1] @ [1, 1] @ [length [1::nat, 1]])) [1, 1]
               (length [1::nat, 1]) = Inr u
           \<and> val u (0 # 0 # [0, 0] @ [0])
               = (\<Sum>k<length [1::nat, 1]. val Q ([0, 0] @ [0, k]) * noise1 (0 # 0 # [0, 0] @ [k]))"
    using grid_filter_values[OF Q mv1 p b vi j, of noise1] l1 by blast
  then obtain u where
    u: "grid_filter Q (randn noise1 ([2, 1] @ [1, 1] @ [length [1::nat, 1]])) [1, 1]
               (length [1::nat, 1]) = Inr u"
    and uv: "val u (0 # 0 # [0, 0] @ [0])
               = (\<Sum>k<length [1::nat, 1]. val Q ([0, 0] @ [0, k]) * noise1 (0 # 0 # [0, 0] @ [k]))"
    by blast
  have Qv: "val Q [0, 0, 0, 0] = 6 / 5" "val Q [0, 0, 0, 1] = - 8 / 5"
    using Q by (auto simp: gx1_def P1_def P0_def grid_eval matrix_val_def vector_val_def U1_def)
  have b: "val (projr (grid_filter (projr (grid_build P1 gx1 [1, 1] [1, 1]))
              (randn noise1 [2, 1, 1, 1, 2]) [1, 1] 2)) [0, 0, 0, 0, 0] = - 148"
    using u uv Q Qv by (simp add: noise1_def numeral_2_eq_2)
  show ?thesis using a b by simp
qed

section \<open>The square-root stage of RandomGridGreens\<close>

lemma broadcast_matrix_scale:
  "broadcast_shapes (S @ [d, e]) (S @ [d, 1]) = Some (S @ [d, e])"
  by (simp add: broadcast_shapes_def broadcast_rev_same)

lemma bindex_scale:
  assumes "valid_index S f" "i < d"
  shows "bindex (S @ [d, 1]) (f @ [i, j]) = f @ [i, 0]"
proof -
  have v: "valid_index (S @ [d]) (f @ [i])"
    using assms by (simp add: valid_index_def list_all2_appendI)
  show ?thesis using bindex_unsqueezed[OF v, of "[]" j] by simp
qed

lemma grid_sqrt_entry:
  assumes "any_lame lame" "shape_of G = S @ [d, d]" "valid_index S f" "i < d" "j < d"
  shows "\<exists>R. grid_sqrt P lame G = Inr R
           \<and> val R (f @ [i, j])
               = val (fst (torch_svd P G)) (f @ [i, j])
                 * sqrt (val (fst (snd (torch_svd P G))) (f @ [i]))"
proof -
  have v: "valid_index (S @ [d, d]) (f @ [i, j])"
    using assms(3-5) by (simp add: valid_index_def list_all2_appendI)
  have b1: "bindex (S @ [d, d]) (f @ [i, j]) = f @ [i, j]" using bindex_valid[OF v] .
  have b2: "bindex (S @ [d, 1]) (f @ [i, j]) = f @ [i, 0]" using bindex_scale[OF assms(3,4)] .
  have bl: "butlast (S @ [d, d]) = S @ [d]" by (simp add: butlast_append)
  have bl2: "butlast (f @ [i, 0]) = f @ [i]" by (simp add: butlast_append)
  show ?thesis
    using assms(1,2) b1 b2 bl bl2
    by (simp add: grid_sqrt_def torch_svd_def inplace_op_def broadcast_op_def unsqueeze_last_def
        sqrt_tensor_def map_tensor_def broadcast_matrix_scale[simplified] split: prod.splits)
qed

lemma orthogonal_atD:
  "orthogonal_at U f d \<Longrightarrow> i < d \<Longrightarrow> k < d \<Longrightarrow> gram U f d i k = kronecker i k"
  by (simp add: orthogonal_at_def list_all_iff)

text \<open>For a scalar kernel the stage is the elementwise root, which squares back on \<open>k \<ge> 0\<close>.\<close>

lemma sqrt_tensor_squares_back:
  "0 \<le> val k idx \<Longrightarrow> val (sqrt_tensor k) idx * val (sqrt_tensor k) idx = val k idx"
  by (simp add: sqrt_tensor_def map_tensor_def)

text \<open>
  C2. The claim: the factor \<open>R\<close> of the square-root stage satisfies \<open>R \<cdot> R\<^sup>T = kernel\<close>
  at every frequency. With Lame terms the code does otherwise. Line 425 multiplies \<open>U\<close> by
  \<^verbatim>\<open>scale.unsqueeze(-1)\<close>, which scales row \<open>i\<close> of \<open>U\<close> by \<open>sqrt s\<^sub>i\<close>: the factor is
  \<open>diag(sqrt s) \<cdot> U\<close>, not \<open>U \<cdot> diag(sqrt s)\<close>. For every decomposition that \<^verbatim>\<open>torch.svd\<close>
  may return, \<open>R \<cdot> R\<^sup>T\<close> is then the diagonal matrix of the singular values, whatever
  the kernel is.
\<close>

theorem sqrt_stage_gram_diagonal:
  assumes "any_lame lame" "shape_of G = S @ [d, d]" "valid_index S f" "i < d" "k < d"
      and "svd_at G (torch_svd P G) f d"
  shows "\<exists>R. grid_sqrt P lame G = Inr R
           \<and> gram R f d i k = (if i = k then val (fst (snd (torch_svd P G))) (f @ [i]) else 0)"
proof -
  let ?U = "fst (torch_svd P G)"
  let ?s = "fst (snd (torch_svd P G))"
  obtain R where R: "grid_sqrt P lame G = Inr R"
    using grid_sqrt_entry[OF assms(1-4) assms(4)] by blast
  have e: "val R (f @ [a, j]) = val ?U (f @ [a, j]) * sqrt (val ?s (f @ [a]))"
    if "a < d" "j < d" for a j
    using grid_sqrt_entry[OF assms(1-3) that, of P] R by auto
  have o: "gram ?U f d i k = kronecker i k"
    using assms(6) orthogonal_atD[OF _ assms(4,5)] by (auto simp: svd_at_def split: prod.splits)
  have n: "0 \<le> val ?s (f @ [i])"
    using assms(4,6) by (auto simp: svd_at_def list_all_iff split: prod.splits)
  have "gram R f d i k
        = (\<Sum>j<d. (val ?U (f @ [i, j]) * sqrt (val ?s (f @ [i])))
                  * (val ?U (f @ [k, j]) * sqrt (val ?s (f @ [k]))))"
    unfolding gram_def using e assms(4,5) by simp
  also have "\<dots> = (sqrt (val ?s (f @ [i])) * sqrt (val ?s (f @ [k]))) * gram ?U f d i k"
    unfolding gram_def sum_distrib_left by (rule sum.cong) (simp_all add: mult_ac)
  also have "\<dots> = (if i = k then val ?s (f @ [i]) else 0)"
    using o n by (auto simp: kronecker_def)
  finally show ?thesis using R by simp
qed

text \<open>
  At the kernel \<open>G = [[52/25, 36/25], [36/25, 73/25]]\<close>, decomposed with singular values
  (4, 1): \<open>R \<cdot> R\<^sup>T\<close> is \<open>[[4, 0], [0, 1]]\<close>, with entry (0, 1) equal to 0 where the
  kernel has 36/25 and entry (0, 0) equal to 4 where the kernel has 52/25.
\<close>

lemmas matrix_eval = svd_at_def orthogonal_at_def gram_def kronecker_def torch_svd_def
  spatial_greens_def any_lame_def P1_def P0_def matrix_val_def vector_val_def G1_def U1_def
  upt_rec numeral_2_eq_2

theorem sqrt_stage_gram_diagonal_witness:
  "svd_at (spatial_greens P1 [1, 1] 1 1 1 (1, 0) [1, 1])
     (torch_svd P1 (spatial_greens P1 [1, 1] 1 1 1 (1, 0) [1, 1])) [0, 0] 2
   \<and> \<not> isl (grid_build P1 gx1 [1, 1] [1, 1])
   \<and> gram (projr (grid_build P1 gx1 [1, 1] [1, 1])) [0, 0] 2 0 1 = 0
   \<and> val (spatial_greens P1 [1, 1] 1 1 1 (1, 0) [1, 1]) [0, 0, 0, 1] = 36 / 25
   \<and> gram (projr (grid_build P1 gx1 [1, 1] [1, 1])) [0, 0] 2 0 0 = 4
   \<and> val (spatial_greens P1 [1, 1] 1 1 1 (1, 0) [1, 1]) [0, 0, 0, 0] = 52 / 25"
proof -
  let ?G = "spatial_greens P1 [1, 1] 1 1 1 (1, 0) [1, 1]"
  have l: "any_lame (1, 0)" by (simp add: any_lame_def)
  have sh: "shape_of ?G = [1, 1] @ [2, 2]" by (simp add: spatial_greens_def any_lame_def)
  have vi: "valid_index [1, 1] [0, 0]" by (simp add: valid_index_def)
  have i0: "(0::nat) < 2" and i1: "(1::nat) < 2" by simp_all
  have svd: "svd_at ?G (torch_svd P1 ?G) [0, 0] 2"
    by (simp add: matrix_eval)
  have gb: "grid_build P1 gx1 [1, 1] [1, 1] = grid_sqrt P1 (1, 0) ?G"
    by (simp add: grid_build_def gx1_def RandomGridGreens_init_def)
  have s0: "val (fst (snd (torch_svd P1 ?G))) ([0, 0] @ [0]) = 4"
    by (simp add: torch_svd_def P1_def vector_val_def)
  from sqrt_stage_gram_diagonal[OF l sh vi i0 i1 svd] obtain R where
    R: "grid_sqrt P1 (1, 0) ?G = Inr R" and g01: "gram R [0, 0] 2 0 1 = 0"
    by auto
  from sqrt_stage_gram_diagonal[OF l sh vi i0 i0 svd] R s0 have g00: "gram R [0, 0] 2 0 0 = 4"
    by auto
  have v: "val ?G [0, 0, 0, 1] = 36 / 25" "val ?G [0, 0, 0, 0] = 52 / 25"
    by (simp_all add: spatial_greens_def P1_def matrix_val_def G1_def)
  show ?thesis using svd gb R g01 g00 v by simp
qed

section \<open>The kernel cache of RandomGridGreens\<close>

lemma broadcast_op_shape_only:
  assumes "shape_of a = shape_of a'" "shape_of b = shape_of b'"
  shows "map_sum id shape_of (broadcast_op f a b) = map_sum id shape_of (broadcast_op f' a' b')"
  using assms by (simp add: broadcast_op_def split: option.splits)

lemma matvec_shape_only:
  assumes "shape_of v = shape_of v'"
  shows "map_sum id shape_of (matvec g v) = map_sum id shape_of (matvec g v')"
  using assms by (simp add: matvec_def Let_def split: option.splits)

lemma map_sum_shape_Inr:
  "map_sum id shape_of x = map_sum id shape_of y \<Longrightarrow> x = Inr t \<Longrightarrow>
   \<exists>u. y = Inr u \<and> shape_of u = shape_of t"
  by (cases y) auto

lemma map_sum_shape_Inl:
  "map_sum id shape_of x = map_sum id shape_of y \<Longrightarrow> x = Inl e \<Longrightarrow> y = Inl e"
  by (cases y) auto

lemma grid_filter_shape_only:
  assumes "shape_of v = shape_of v'"
  shows "map_sum id shape_of (grid_filter g v vs n) = map_sum id shape_of (grid_filter g v' vs n)"
proof (cases "n < length (shape_of g)")
  case True
  then show ?thesis using matvec_shape_only[OF assms] by (simp add: grid_filter_def)
next
  case False
  note b = broadcast_op_shape_only[where a = v and a' = v' and b = "unsqueeze_last g"
      and b' = "unsqueeze_last g" and f = "(*)" and f' = "(*)", OF assms refl]
  show ?thesis
  proof (cases "broadcast_op (*) v (unsqueeze_last g)")
    case (Inl e)
    then show ?thesis using False map_sum_shape_Inl[OF b Inl] by (simp add: grid_filter_def)
  next
    case (Inr t)
    then obtain u where u: "broadcast_op (*) v' (unsqueeze_last g) = Inr u" "shape_of u = shape_of t"
      using map_sum_shape_Inr[OF b Inr] by blast
    show ?thesis
    proof (cases "make_vector (Vector vs) n")
      case l: (Inl e)
      then show ?thesis using False Inr u by (simp add: grid_filter_def)
    next
      case r: (Inr w)
      show ?thesis
        using False Inr u r
          broadcast_op_shape_only[where a = t and a' = u and f = "(/)" and f' = "(/)"
            and b = "sqrt_tensor (vector_tensor w)" and b' = "sqrt_tensor (vector_tensor w)",
            OF u(2)[symmetric] refl]
        by (simp add: grid_filter_def)
    qed
  qed
qed

lemma grid_sample_isl:
  "isl (grid_sample P n1 g mean1 vs b s) = isl (grid_sample P n2 g mean2 vs b s)"
proof -
  let ?v = "randn n1 ([2, b] @ s @ [length s])"
  let ?v' = "randn n2 ([2, b] @ s @ [length s])"
  have "shape_of ?v = shape_of ?v'" by (simp add: randn_def)
  note e = grid_filter_shape_only[OF this, of g vs "length s"]
  show ?thesis
  proof (cases "grid_filter g ?v vs (length s)")
    case (Inl x)
    then show ?thesis using map_sum_shape_Inl[OF e Inl]
      by (simp add: grid_sample_def Let_def)
  next
    case (Inr t)
    then obtain u where "grid_filter g ?v' vs (length s) = Inr u"
      using map_sum_shape_Inr[OF e Inr] by blast
    then show ?thesis using Inr by (simp add: grid_sample_def Let_def)
  qed
qed

lemma grid_first_success_stores:
  assumes "gg_cache_greens self"
      and "result (RandomGridGreens_forward P n1 self b ov) = Inr t"
  shows "\<exists>shape vs g. get_shape ov (gg_shape self) = Some shape
           \<and> make_vector (get_or (ov_voxel_size ov) (gg_voxel_size self)) (length shape) = Inr vs
           \<and> final (RandomGridGreens_forward P n1 self b ov)
              = self\<lparr>gg_attr_greens := Some g, gg_attr_voxel_size := Some vs,
                     gg_attr_shape := Some shape\<rparr>
           \<and> result (RandomGridGreens_forward P n1 self b ov)
              = grid_sample P n1 g (get_or (ov_mean ov) (gg_mean self)) vs b shape"
proof -
  obtain shape where s: "get_shape ov (gg_shape self) = Some shape"
    using assms(2)
    by (cases "get_shape ov (gg_shape self)") (simp_all add: RandomGridGreens_forward_def Let_def)
  obtain vs where
    v: "make_vector (get_or (ov_voxel_size ov) (gg_voxel_size self)) (length shape) = Inr vs"
    using assms(2) s
    by (cases "make_vector (get_or (ov_voxel_size ov) (gg_voxel_size self)) (length shape)")
       (simp_all add: RandomGridGreens_forward_def Let_def)
  obtain c where c: "grid_cached self vs shape = Inr c"
    using assms(2) s v
    by (cases "grid_cached self vs shape") (simp_all add: RandomGridGreens_forward_def Let_def)
  show ?thesis
  proof (cases c)
    case None
    obtain g where g: "grid_build P self shape vs = Inr g"
      using assms(2) s v c None
      by (cases "grid_build P self shape vs") (simp_all add: RandomGridGreens_forward_def Let_def)
    show ?thesis using s v c None g assms(1)
      by (intro exI[of _ shape] exI[of _ vs] exI[of _ g])
         (simp add: RandomGridGreens_forward_def Let_def grid_store_def)
  next
    case (Some g)
    have "gg_attr_greens self = Some g \<and> gg_attr_voxel_size self = Some vs
          \<and> gg_attr_shape self = Some shape"
      using c Some by (auto simp: grid_cached_def split: option.splits if_splits)
    then have "self = self\<lparr>gg_attr_greens := Some g, gg_attr_voxel_size := Some vs,
                     gg_attr_shape := Some shape\<rparr>"
      by simp
    then show ?thesis using s v c Some
      by (intro exI[of _ shape] exI[of _ vs] exI[of _ g])
         (simp add: RandomGridGreens_forward_def Let_def)
  qed
qed

lemma grid_cached_stored:
  "grid_cached
     (self\<lparr>gg_attr_greens := Some g, gg_attr_voxel_size := Some vs, gg_attr_shape := Some s\<rparr>)
     vs' s' = (if vs' = vs \<and> s' = s then Inr (Some g) else Inr None)"
  by (auto simp: grid_cached_def)

text \<open>
  \<^verbatim>\<open>RandomGridGreens\<close> with caching enabled: after a call that returned a field, the
  next call with the same arguments, whatever the penalty weights have been set to in
  between, calls \<^verbatim>\<open>spatial.greens\<close> not at all and returns the field sampled from the
  kernel stored by the first call.
\<close>

theorem grid_second_call_reuses:
  assumes "gg_cache_greens self"
      and "result (RandomGridGreens_forward P n1 self b ov) = Inr t"
  shows "\<exists>g t' shape vs.
           gg_attr_greens (final (RandomGridGreens_forward P n1 self b ov)) = Some g
         \<and> RandomGridGreens_forward P n2
             ((final (RandomGridGreens_forward P n1 self b ov))
                \<lparr>gg_absolute := a, gg_membrane := m, gg_bending := bd, gg_lame := l\<rparr>) b ov
           = \<lparr>final = (final (RandomGridGreens_forward P n1 self b ov))
                \<lparr>gg_absolute := a, gg_membrane := m, gg_bending := bd, gg_lame := l\<rparr>,
              greens_calls = 0, result = Inr t'\<rparr>
         \<and> grid_sample P n2 g (get_or (ov_mean ov) (gg_mean self)) vs b shape = Inr t'
         \<and> grid_sample P n1 g (get_or (ov_mean ov) (gg_mean self)) vs b shape = Inr t"
proof -
  from grid_first_success_stores[OF assms] obtain shape vs g where
    s: "get_shape ov (gg_shape self) = Some shape"
    and v: "make_vector (get_or (ov_voxel_size ov) (gg_voxel_size self)) (length shape) = Inr vs"
    and f: "final (RandomGridGreens_forward P n1 self b ov)
              = self\<lparr>gg_attr_greens := Some g, gg_attr_voxel_size := Some vs,
                     gg_attr_shape := Some shape\<rparr>"
    and r: "result (RandomGridGreens_forward P n1 self b ov)
              = grid_sample P n1 g (get_or (ov_mean ov) (gg_mean self)) vs b shape"
    by blast
  have "\<not> isl (grid_sample P n1 g (get_or (ov_mean ov) (gg_mean self)) vs b shape)"
    using r[symmetric] assms(2) by simp
  then have "\<not> isl (grid_sample P n2 g (get_or (ov_mean ov) (gg_mean self)) vs b shape)"
    using grid_sample_isl by blast
  then obtain t' where
    t': "grid_sample P n2 g (get_or (ov_mean ov) (gg_mean self)) vs b shape = Inr t'"
    by (cases "grid_sample P n2 g (get_or (ov_mean ov) (gg_mean self)) vs b shape") auto
  have c: "grid_cached
     (self\<lparr>gg_attr_greens := Some g, gg_attr_voxel_size := Some vs, gg_attr_shape := Some shape,
           gg_absolute := a, gg_membrane := m, gg_bending := bd, gg_lame := l\<rparr>) vs shape
     = Inr (Some g)"
    by (simp add: grid_cached_def)
  have "RandomGridGreens_forward P n2
         (self\<lparr>gg_attr_greens := Some g, gg_attr_voxel_size := Some vs, gg_attr_shape := Some shape,
           gg_absolute := a, gg_membrane := m, gg_bending := bd, gg_lame := l\<rparr>) b ov
        = \<lparr>final = self\<lparr>gg_attr_greens := Some g, gg_attr_voxel_size := Some vs,
              gg_attr_shape := Some shape,
              gg_absolute := a, gg_membrane := m, gg_bending := bd, gg_lame := l\<rparr>,
           greens_calls = 0, result = Inr t'\<rparr>"
    using s v c t' by (simp add: RandomGridGreens_forward_def Let_def)
  moreover have "grid_sample P n1 g (get_or (ov_mean ov) (gg_mean self)) vs b shape = Inr t"
    using r[symmetric] assms(2) by simp
  ultimately show ?thesis unfolding f using t'
    by (intro exI[of _ g] exI[of _ t'] exI[of _ shape] exI[of _ vs]) simp
qed

text \<open>
  \<^verbatim>\<open>RandomGridGreens\<close> with caching enabled: a call with another shape than the one
  stored builds the kernel again.
\<close>

theorem grid_shape_change_rebuilds:
  assumes "gg_cache_greens self"
      and "result (RandomGridGreens_forward P n1 self b ov) = Inr t"
      and "get_shape ov (gg_shape self) = Some shape"
      and "shape' \<noteq> shape"
      and "make_vector (get_or (ov_voxel_size ov) (gg_voxel_size self)) (length shape') = Inr vs'"
  shows "greens_calls (RandomGridGreens_forward P n2
           (final (RandomGridGreens_forward P n1 self b ov)) b' (ov\<lparr>ov_shape := Some shape'\<rparr>)) = 1"
proof -
  from grid_first_success_stores[OF assms(1,2)] assms(3) obtain vs g where
    f: "final (RandomGridGreens_forward P n1 self b ov)
              = self\<lparr>gg_attr_greens := Some g, gg_attr_voxel_size := Some vs,
                     gg_attr_shape := Some shape\<rparr>"
    by auto
  have c: "grid_cached (self\<lparr>gg_attr_greens := Some g, gg_attr_voxel_size := Some vs,
                     gg_attr_shape := Some shape\<rparr>) vs' shape' = Inr None"
    using assms(4) by (simp add: grid_cached_stored)
  show ?thesis
    unfolding f using c assms(5)
    by (simp add: RandomGridGreens_forward_def Let_def get_shape_def get_or_def split: sum.splits)
qed

text \<open>
  \<^verbatim>\<open>RandomFieldGreens\<close>: a call with another shape of the same dimension does not
  rebuild either; the voxel sizes still match, so line 290 is reached and raises.
\<close>

lemma field_shape_change_raises:
  assumes "fg_cache_greens self" "fg_attr_channel self = None"
      and "result (RandomFieldGreens_forward P n1 self b1 ov) = Inr t"
      and "get_shape ov (fg_shape self) = Some shape" "length shape' = length shape"
  shows "result (RandomFieldGreens_forward P n2
           (final (RandomFieldGreens_forward P n1 self b1 ov)) b2 (ov\<lparr>ov_shape := Some shape'\<rparr>))
         = Inl AttributeError"
proof -
  from field_first_success_stores[OF assms(1-3)] assms(4) obtain vs g where
    v: "make_vector (get_or (ov_voxel_size ov) (fg_voxel_size self)) (length shape) = Inr vs"
    and f: "final (RandomFieldGreens_forward P n1 self b1 ov)
              = self\<lparr>fg_attr_greens := Some g, fg_attr_voxel_size := Some vs,
                     fg_attr_shape := Some shape\<rparr>"
    by auto
  show ?thesis
    unfolding f using v assms(5)
    by (simp add: RandomFieldGreens_forward_def Let_def get_shape_def get_or_def
        field_cached_stored[OF assms(2)])
qed

theorem grid_second_call_reuses_witness:
  "\<not> isl (result (RandomGridGreens_forward P0 noise0 gc0 3 no_overload))
   \<and> greens_calls (RandomGridGreens_forward P0 noise1
        ((final (RandomGridGreens_forward P0 noise0 gc0 3 no_overload))
           \<lparr>gg_absolute := 1, gg_membrane := 2, gg_bending := 3, gg_lame := (0, 0)\<rparr>)
        3 no_overload) = 0
   \<and> \<not> isl (result (RandomGridGreens_forward P0 noise1
        ((final (RandomGridGreens_forward P0 noise0 gc0 3 no_overload))
           \<lparr>gg_absolute := 1, gg_membrane := 2, gg_bending := 3, gg_lame := (0, 0)\<rparr>)
        3 no_overload))"
proof -
  have c: "gg_cache_greens gc0" by (simp add: gc0_def RandomGridGreens_init_def)
  obtain t where h: "result (RandomGridGreens_forward P0 noise0 gc0 3 no_overload) = Inr t"
    by (simp add: gc0_def eval_defs P0_def split: prod.splits)
  show ?thesis
    using grid_second_call_reuses[where a = 1 and m = 2 and bd = 3 and l = "(0, 0)"
        and ?n2.0 = noise1, OF c h] h
    by auto
qed

theorem grid_shape_change_rebuilds_witness:
  "\<not> isl (result (RandomGridGreens_forward P0 noise0 gc0 3 no_overload))
   \<and> greens_calls (RandomGridGreens_forward P0 noise0
        (final (RandomGridGreens_forward P0 noise0 gc0 3 no_overload)) 3
        (no_overload\<lparr>ov_shape := Some [3, 3]\<rparr>)) = 1"
proof -
  have c: "gg_cache_greens gc0" by (simp add: gc0_def RandomGridGreens_init_def)
  obtain t where h: "result (RandomGridGreens_forward P0 noise0 gc0 3 no_overload) = Inr t"
    by (simp add: gc0_def eval_defs P0_def split: prod.splits)
  have s: "get_shape no_overload (gg_shape gc0) = Some [2, 2]"
    by (simp add: gc0_def RandomGridGreens_init_def get_shape_def no_overload_def)
  have d: "[3, 3] \<noteq> [2, 2 :: nat]" by simp
  have v: "make_vector (get_or (ov_voxel_size no_overload) (gg_voxel_size gc0)) (length [3 :: nat, 3])
           = Inr [1, 1]"
    by (simp add: gc0_def RandomGridGreens_init_def get_or_def no_overload_def eval_nat_numeral)
  show ?thesis
    using grid_shape_change_rebuilds[where ?n2.0 = noise0 and b' = 3, OF c h s d v] h
    by simp
qed


section \<open>What VoxelMorph.forward returns as velocity\<close>

text \<open>
  The velocity returned by \<^verbatim>\<open>VoxelMorph.forward\<close> is the output of the U-Net on the
  concatenated images, with the channel axis moved last: it is zero wherever the U-Net's
  output is.
\<close>

lemma forward_velocity:
  assumes "VoxelMorph_forward L self source target source_seg target_seg = (calls, Inr out)"
  shows "\<exists>st. torch_cat1 source target = Inr st \<and> fo_velocity out = channel2last (unet_fn L st)"
proof -
  have c: "VoxelMorph_checks self source target source_seg target_seg = Inr ()"
    using assms
    by (cases "VoxelMorph_checks self source target source_seg target_seg")
       (simp_all add: VoxelMorph_forward_def)
  obtain st where st: "torch_cat1 source target = Inr st"
    using assms c by (cases "torch_cat1 source target") (simp_all add: VoxelMorph_forward_def)
  have "fo_velocity out = channel2last (unet_fn L st)"
  proof (cases source_seg)
    case None
    then show ?thesis using assms c st
      by (auto simp: VoxelMorph_forward_def Let_def split: prod.splits)
  next
    case (Some seg)
    then show ?thesis using assms c st
      by (cases "drop 2 (shape_of seg) \<noteq> drop 2 (shape_of source)")
         (auto simp: VoxelMorph_forward_def Let_def split: prod.splits)
  qed
  then show ?thesis using st by blast
qed

end
